theory Spec2Isabelle
  imports Main "HOL-Library.Word"
begin

section \<open>JavaScript values used by the action\<close>

text \<open>
  A JavaScript string is a sequence of UTF-16 code units, so a string is a list of
  16-bit words; a \<open>Uint8Array\<close> is a list of 8-bit words. \<open>lit\<close> turns a literal of
  the source (ASCII) into such a string; \<open>apostrophe\<close> is the string \<open>'\<close>.
\<close>

type_synonym jschar = "16 word"
type_synonym jsstring = "jschar list"
type_synonym byte = "8 word"

definition lit :: "string \<Rightarrow> jsstring" where
  "lit s = map (\<lambda>c. of_nat (of_char c)) s"

definition apostrophe :: jsstring where
  "apostrophe = [39]"

text \<open>
  A thrown value: an instance of \<open>Error\<close> (also of its subclasses, such as the
  \<open>TypeError\<close> of a property read on \<open>null\<close>) with its message, or any other value.
\<close>

datatype thrown = Error jsstring | NonError jsstring

text \<open>A template literal renders \<open>undefined\<close> as the text \<open>undefined\<close>.\<close>

definition template :: "jsstring option \<Rightarrow> jsstring" where
  "template v = (case v of None \<Rightarrow> lit ''undefined'' | Some s \<Rightarrow> s)"

fun defined :: "'a option \<Rightarrow> bool" where
  "defined None = False"
| "defined (Some v) = True"

subsection \<open>String.prototype.trim, split and Array.prototype.join\<close>

text \<open>
  \<open>trim\<close> removes the white space and line terminators of ECMAScript from both ends.
\<close>

definition is_white_space :: "jschar \<Rightarrow> bool" where
  "is_white_space c =
     (c \<in> set [9, 10, 11, 12, 13, 32, 160, 5760, 8232, 8233, 8239, 8287, 12288, 65279]
      \<or> (8192 \<le> c \<and> c \<le> 8202))"

definition trim :: "jsstring \<Rightarrow> jsstring" where
  "trim s = rev (dropWhile is_white_space (rev (dropWhile is_white_space s)))"

text \<open>
  \<open>s.split(sep)\<close> for a separator of one code unit, which is also \<open>s.split(/\n/g)\<close>
  when the separator is the line feed: \<open>cur\<close> is the piece being read.
\<close>

fun split_on :: "jschar \<Rightarrow> jsstring \<Rightarrow> jsstring \<Rightarrow> jsstring list" where
  "split_on sep cur [] = [cur]"
| "split_on sep cur (c # cs) =
     (if c = sep then cur # split_on sep [] cs else split_on sep (cur @ [c]) cs)"

text \<open>\<open>s.split(/\r?\n/g)\<close>: a line feed, with the carriage return before it if there is one.\<close>

fun split_crlf :: "jsstring \<Rightarrow> jsstring \<Rightarrow> jsstring list" where
  "split_crlf cur [] = [cur]"
| "split_crlf cur [c] = (if c = 10 then [cur, []] else [cur @ [c]])"
| "split_crlf cur (c # d # cs) =
     (if c = 13 \<and> d = 10 then cur # split_crlf [] cs
      else if c = 10 then cur # split_crlf [] (d # cs)
      else split_crlf (cur @ [c]) (d # cs))"

fun join :: "jsstring \<Rightarrow> jsstring list \<Rightarrow> jsstring" where
  "join sep [] = []"
| "join sep [x] = x"
| "join sep (x # y # ys) = x @ sep @ join sep (y # ys)"

text \<open>
  Array destructuring \<open>const [a, b] = xs\<close> reads \<open>xs[0]\<close> and \<open>xs[1]\<close>; an index
  past the end gives \<open>undefined\<close>.
\<close>

definition element :: "'a list \<Rightarrow> nat \<Rightarrow> 'a option" where
  "element xs i = (if i < length xs then Some (xs ! i) else None)"

subsection \<open>JSON.stringify\<close>

text \<open>
  The values the action serialises are strings, arrays and objects with their
  properties in creation order; a property whose value is \<open>undefined\<close> is left out by
  the caller. \<open>json_quote\<close> is QuoteJSONString: the short escapes, \<open>\u00xx\<close> for
  the other control characters, \<open>\udxxx\<close> for a surrogate without its partner.
\<close>

datatype json = JString jsstring | JArray "json list" | JObject "(jsstring \<times> json) list"

definition hex_digit :: "nat \<Rightarrow> jschar" where
  "hex_digit d = lit ''0123456789abcdef'' ! d"

definition unicode_escape :: "jschar \<Rightarrow> jsstring" where
  "unicode_escape c =
     [92, 117, hex_digit (unat c div 4096), hex_digit (unat c div 256 mod 16),
      hex_digit (unat c div 16 mod 16), hex_digit (unat c mod 16)]"

definition is_high_surrogate :: "jschar \<Rightarrow> bool" where
  "is_high_surrogate c = (55296 \<le> c \<and> c \<le> 56319)"

definition is_low_surrogate :: "jschar \<Rightarrow> bool" where
  "is_low_surrogate c = (56320 \<le> c \<and> c \<le> 57343)"

definition json_escape :: "jschar \<Rightarrow> jsstring" where
  "json_escape c =
     (if c = 8 then [92, 98] else if c = 9 then [92, 116] else if c = 10 then [92, 110]
      else if c = 12 then [92, 102] else if c = 13 then [92, 114]
      else if c = 34 then [92, 34] else if c = 92 then [92, 92]
      else if c < 32 \<or> is_high_surrogate c \<or> is_low_surrogate c then unicode_escape c
      else [c])"

fun json_quote :: "jsstring \<Rightarrow> jsstring" where
  "json_quote [] = []"
| "json_quote [c] = json_escape c"
| "json_quote (c # d # cs) =
     (if is_high_surrogate c \<and> is_low_surrogate d then c # d # json_quote cs
      else json_escape c @ json_quote (d # cs))"

fun JSON_stringify :: "json \<Rightarrow> jsstring" where
  "JSON_stringify (JString s) = [34] @ json_quote s @ [34]"
| "JSON_stringify (JArray xs) = [91] @ join [44] (map JSON_stringify xs) @ [93]"
| "JSON_stringify (JObject ps) =
     [123] @ join [44] (map (\<lambda>p. [34] @ json_quote (fst p) @ [34, 58] @ JSON_stringify (snd p)) ps)
       @ [125]"

section \<open>getRepoFiles.ts: base58Encode\<close>

definition B58ALPHANUM :: jsstring where
  "B58ALPHANUM = lit ''123456789ABCDEFGHJKLMNPQRSTUVWXYZabcdefghijkmnopqrstuvwxyz''"

text \<open>The parameter type \<open>string | Uint8Array\<close>.\<close>

datatype b58_input = Str jsstring | Bytes "byte list"

text \<open>
  \<open>new Uint8Array(input.split('').map((c) => c.charCodeAt(0)))\<close>: every code unit is
  stored in an 8-bit element, that is, reduced modulo 256.
\<close>

definition to_Uint8Array :: "jsstring \<Rightarrow> byte list" where
  "to_Uint8Array s = map ucast s"

text \<open>\<open>c.toString(16).padStart(2, '0')\<close> for a byte \<open>c\<close>: two lower-case hex digits.\<close>

definition byte_hex :: "byte \<Rightarrow> jsstring" where
  "byte_hex c = [hex_digit (unat c div 16), hex_digit (unat c mod 16)]"

text \<open>\<open>BigInt('0x' + hex)\<close> on the digits \<open>hex\<close>; a BigInt is unbounded, here never negative.\<close>

definition hex_value :: "jschar \<Rightarrow> nat" where
  "hex_value d = (if 48 \<le> d \<and> d \<le> 57 then unat d - 48 else unat d - 87)"

definition BigInt_hex :: "jsstring \<Rightarrow> nat" where
  "BigInt_hex hex = foldl (\<lambda>acc d. 16 * acc + hex_value d) 0 hex"

text \<open>The loop \<open>while (x > 0) { mod = x % 58n; x = x / 58n; output.push(B58ALPHANUM[mod]) }\<close>.\<close>

function b58_while :: "nat \<Rightarrow> jsstring list \<Rightarrow> jsstring list" where
  "b58_while x output =
     (if x > 0 then b58_while (x div 58) (output @ [[B58ALPHANUM ! (x mod 58)]]) else output)"
  by pat_completeness auto
termination
  by (relation "measure (\<lambda>(x, output). x)") auto

text \<open>
  The loop \<open>for (let i = 0; input[i] === 0; i++) output.push(B58ALPHANUM[0])\<close>; reading
  past the end of the array gives \<open>undefined\<close>, which is not \<open>0\<close>.
\<close>

function b58_zeros :: "byte list \<Rightarrow> nat \<Rightarrow> jsstring list \<Rightarrow> jsstring list" where
  "b58_zeros input i output =
     (if i < length input \<and> input ! i = 0
      then b58_zeros input (i + 1) (output @ [[B58ALPHANUM ! 0]])
      else output)"
  by pat_completeness auto
termination
  by (relation "measure (\<lambda>(input, i, output). length input - i)") auto

definition base58Encode_bytes :: "byte list \<Rightarrow> jsstring" where
  "base58Encode_bytes input =
     (let hex = concat (map byte_hex input);
          x = BigInt_hex hex;
          output = b58_while x [];
          output = b58_zeros input 0 output
      in concat (rev output))"

fun base58Encode :: "b58_input \<Rightarrow> jsstring" where
  "base58Encode (Str s) = (if length s = 0 then [] else base58Encode_bytes (to_Uint8Array s))"
| "base58Encode (Bytes bs) = (if length bs = 0 then [] else base58Encode_bytes bs)"

section \<open>The environment of a run\<close>

text \<open>
  Everything the action reads from outside: the raw action inputs (the empty string when
  an input is not supplied), the environment variables that \<open>input.ts\<close> and
  \<open>createCommit.ts\<close> read, which \<open>index.ts\<close> declares as strings, the local file
  system as \<open>existsSync\<close>, \<open>readFileSync\<close> and \<open>globSync\<close> see it, and the
  outcome of \<open>requestGraphQL\<close> for the two requests of a run: the parsed response, or
  the value the promise is rejected with. \<open>readFileSync_utf8\<close> is
  \<open>readFileSync(f, 'utf-8')\<close> and \<open>readFileSync_base64\<close> is
  \<open>readFileSync(f).toString('base64')\<close>; both may throw. Every request is taken to
  settle: a promise that is neither resolved nor rejected is not part of the model.
\<close>

record GraphQLDataType =
  query :: jsstring
  variables :: "jsstring option"

text \<open>
  The response of the repository files query. \<open>target[alias]\<close> is a missing property,
  \<open>null\<close> or an object with the file's type; \<open>NoTarget\<close> is a response in which
  \<open>data.repository.ref.target\<close> cannot be read, with the message of the
  \<open>TypeError\<close> that the read throws.
\<close>

datatype file_result = Undefined | Null | FileObject jsstring

datatype RepoFilesQueryResponseType = NoTarget jsstring | Target "jsstring \<Rightarrow> file_result"

text \<open>
  The response of the commit mutation: \<open>data\<close> is \<open>null\<close> or holds
  \<open>createCommitOnBranch.commit.url\<close>; \<open>errors\<close> may be missing.
\<close>

record GraphQLError =
  error_type :: jsstring
  error_path :: "jsstring list"
  message :: jsstring

record CreateCommitResponseType =
  data :: "jsstring option"
  errors :: "GraphQLError list option"

record world =
  INPUT :: "jsstring \<Rightarrow> jsstring"
  GITHUB_REF_NAME :: jsstring
  GITHUB_REPOSITORY :: jsstring
  GITHUB_SHA :: jsstring
  GITHUB_TOKEN :: jsstring
  existsSync :: "jsstring \<Rightarrow> bool"
  readFileSync_utf8 :: "jsstring \<Rightarrow> thrown + jsstring"
  readFileSync_base64 :: "jsstring \<Rightarrow> thrown + jsstring"
  globSync :: "jsstring \<Rightarrow> jsstring list"
  request_repoFiles :: "jsstring \<Rightarrow> GraphQLDataType \<Rightarrow> thrown + RepoFilesQueryResponseType"
  request_commit :: "jsstring \<Rightarrow> GraphQLDataType \<Rightarrow> thrown + CreateCommitResponseType"

text \<open>
  What a run does to the outside, in order: \<open>info\<close>, \<open>setFailed\<close> and \<open>setSecret\<close>
  of the actions toolkit, and a call of \<open>requestGraphQL\<close> with its token and its data.
  The lines of \<open>debug\<close> are not recorded: they do not change what a run does.
\<close>

datatype event =
  Info jsstring
| SetFailed jsstring
| SetSecret jsstring
| RequestGraphQL jsstring GraphQLDataType

text \<open>
  \<open>getInput(name)\<close> of the actions toolkit trims the raw value; with
  \<open>{ required: true }\<close> it throws when the raw value is empty.
\<close>

definition getInput :: "world \<Rightarrow> jsstring \<Rightarrow> jsstring" where
  "getInput w name = trim (INPUT w name)"

definition getInput_required :: "world \<Rightarrow> jsstring \<Rightarrow> thrown + jsstring" where
  "getInput_required w name =
     (if INPUT w name = [] then Inl (Error (lit ''Input required and not supplied: '' @ name))
      else Inr (trim (INPUT w name)))"

section \<open>input.ts\<close>

record RepositoryType =
  owner :: "jsstring option"
  repository :: "jsstring option"

record CommitMessageType =
  default_flag :: "bool option"
  headline :: jsstring
  body :: "jsstring option"

definition getInputBranch :: "world \<Rightarrow> thrown + jsstring" where
  "getInputBranch w =
     (let input = getInput w (lit ''branch'');
          env = GITHUB_REF_NAME w
      in if input = [] \<and> env = []
         then Inl (Error (lit ''branch could not be determined; input 'branch' not specified ''
                          @ lit ''and 'env.GITHUB_REF_NAME' was empty''))
         else if input \<noteq> [] then Inr input
         else Inr env)"

text \<open>
  The loop \<open>for (const line of lines) { if (line.trim() === '') { lines.shift(); continue }
  break }\<close>. The iterator of an array keeps an index \<open>i\<close>: each round ends the loop
  when \<open>i\<close> has reached the current length and reads \<open>lines[i]\<close> otherwise, then
  advances; \<open>lines.shift()\<close> removes the first element of the same array.
\<close>

function consume_empty_lines :: "nat \<Rightarrow> jsstring list \<Rightarrow> jsstring list" where
  "consume_empty_lines i lines =
     (if i < length lines
      then (if trim (lines ! i) = [] then consume_empty_lines (i + 1) (tl lines) else lines)
      else lines)"
  by pat_completeness auto
termination
  by (relation "measure (\<lambda>(i, lines). length lines - i)") auto

text \<open>
  From the loop on, the two branches of \<open>getInputCommitMessage\<close> (inline message,
  message file) are the same statements; \<open>commit_message_of_lines\<close> is that text, on
  the array \<open>lines\<close> of the branch.
\<close>

definition commit_message_of_lines :: "jsstring list \<Rightarrow> thrown + CommitMessageType" where
  "commit_message_of_lines lines0 =
     (let lines = consume_empty_lines 0 lines0
      in if length lines = 0 then Inl (Error (lit ''commit message is empty''))
         else let out = \<lparr>default_flag = None, headline = trim (hd lines), body = None\<rparr>;
                  lines = tl lines;
                  body = trim (join [10] lines)
              in Inr (if body \<noteq> [] then out\<lparr>body := Some body\<rparr> else out))"

definition getInputCommitMessage :: "world \<Rightarrow> thrown + CommitMessageType" where
  "getInputCommitMessage w =
     (let inputMessage = getInput w (lit ''message'');
          inputMessageFile = getInput w (lit ''message_file'')
      in if inputMessage \<noteq> [] \<and> inputMessageFile \<noteq> []
         then Inl (Error (lit ''both 'message' and 'message_file' cannot be specified''))
         else if inputMessage = [] \<and> inputMessageFile = []
         then Inr \<lparr>default_flag = Some True, headline = lit ''committed files'', body = None\<rparr>
         else if inputMessage \<noteq> []
         then commit_message_of_lines (split_on 10 [] (trim inputMessage))
         else if \<not> existsSync w inputMessageFile
         then Inl (Error (lit ''input 'message_file' '' @ apostrophe @ inputMessageFile
                          @ apostrophe @ lit '' does not exist''))
         else (case readFileSync_utf8 w inputMessageFile of
                 Inl e \<Rightarrow> Inl e
               | Inr content \<Rightarrow> commit_message_of_lines (split_crlf [] content)))"

text \<open>
  The loop over the lines of \<open>getInputDeleteFiles\<close> and of \<open>getInputFiles\<close>, which
  differ in the text of the error only: a line that matches one file is kept as it is
  written, a line that matches several gives the files matched.
\<close>

fun track_files :: "world \<Rightarrow> jsstring \<Rightarrow> jsstring list \<Rightarrow> jsstring list \<Rightarrow> thrown + jsstring list" where
  "track_files w err [] out = Inr out"
| "track_files w err (line # rest) out =
     (let checkGlob = globSync w line
      in if length checkGlob = 0 then Inl (Error (err @ line))
         else if length checkGlob = 1 then track_files w err rest (out @ [line])
         else track_files w err rest (out @ checkGlob))"

definition getInputDeleteFiles :: "world \<Rightarrow> thrown + jsstring list" where
  "getInputDeleteFiles w =
     (let input = getInput w (lit ''delete_files'')
      in if input = [] then Inr []
         else let inputLines = filter (\<lambda>line. trim line \<noteq> []) (split_on 10 [] input)
              in (case track_files w (lit ''no input 'delete_file' found: '') inputLines [] of
                    Inl e \<Rightarrow> Inl e
                  | Inr out \<Rightarrow>
                      if length out = 0
                      then Inl (Error (lit ''no 'delete_files' could be parsed from input: ''
                                       @ apostrophe @ JSON_stringify (JString input) @ apostrophe))
                      else Inr out))"

definition getInputFiles :: "world \<Rightarrow> thrown + jsstring list" where
  "getInputFiles w =
     (case getInput_required w (lit ''files'') of
        Inl e \<Rightarrow> Inl e
      | Inr raw \<Rightarrow>
          let input = filter (\<lambda>line. trim line \<noteq> []) (split_on 10 [] raw)
          in (case track_files w (lit ''no input 'file' found: '') input [] of
                Inl e \<Rightarrow> Inl e
              | Inr out \<Rightarrow>
                  if length out = 0
                  then Inl (Error (lit ''no 'files' could be parsed from input: '' @ apostrophe
                                   @ JSON_stringify (JArray (map JString input)) @ apostrophe))
                  else Inr out))"

text \<open>
  \<open>const [owner, repo] = input.split('/')\<close> leaves \<open>repo\<close> undefined when the
  string has no slash, and \<open>undefined === ''\<close> is false.
\<close>

definition getInputRepository :: "world \<Rightarrow> thrown + RepositoryType" where
  "getInputRepository w =
     (let input = getInput w (lit ''repository'');
          env = GITHUB_REPOSITORY w
      in if input = [] \<and> env = []
         then Inl (Error (lit ''repository could not be determined; input 'repository' not specified ''
                          @ lit ''and 'env.GITHUB_REPOSITORY' was empty''))
         else if input \<noteq> []
         then (let owner = element (split_on 47 [] input) 0;
                   repo = element (split_on 47 [] input) 1
               in if owner = Some [] \<or> repo = Some []
                  then Inl (Error (lit ''input 'repository' could not be parsed: '' @ apostrophe
                                   @ input @ apostrophe @ lit ''; ''
                                   @ lit ''must be formatted as 'OWNER/REPOSITORY'' @ apostrophe))
                  else Inr \<lparr>owner = owner, repository = repo\<rparr>)
         else (let owner = element (split_on 47 [] env) 0;
                   repo = element (split_on 47 [] env) 1
               in if owner = Some [] \<or> repo = Some []
                  then Inl (Error (lit ''GITHUB_REPOSITORY environment variable could not be interpreted''))
                  else Inr \<lparr>owner = owner, repository = repo\<rparr>))"

definition getInputToken :: "world \<Rightarrow> event list \<times> (thrown + jsstring)" where
  "getInputToken w =
     (let input = getInput w (lit ''token'');
          env = GITHUB_TOKEN w
      in if input = [] \<and> env = []
         then ([], Inl (Error (lit ''no token available; must set input 'token' or 'env.GITHUB_TOKEN''
                               @ apostrophe)))
         else if input \<noteq> [] then ([SetSecret input], Inr input)
         else ([SetSecret env], Inr env))"

section \<open>getRepoFiles.ts: getRepoFiles\<close>

record RepoFilesActionType =
  createFiles :: "jsstring list option"
  modifyFiles :: "jsstring list option"
  deleteFiles :: "jsstring list option"

text \<open>
  \<open>InputFilesType\<close> is an object used as a dictionary: its own properties with their
  values, in creation order. \<open>set_property\<close> is the assignment \<open>obj[key] = value\<close>
  of a string: it replaces the value of a property that exists, creates the property at
  the end otherwise, and does nothing for the key \<open>__proto__\<close>, whose setter ignores a
  value that is not an object. \<open>Object_keys\<close> lists the array indices in ascending
  order first, then the other keys in creation order.
\<close>

type_synonym InputFilesType = "(jsstring \<times> jsstring) list"

fun assign_property :: "InputFilesType \<Rightarrow> jsstring \<Rightarrow> jsstring \<Rightarrow> InputFilesType" where
  "assign_property [] key v = [(key, v)]"
| "assign_property (p # ps) key v =
     (if fst p = key then (key, v) # ps else p # assign_property ps key v)"

definition set_property :: "InputFilesType \<Rightarrow> jsstring \<Rightarrow> jsstring \<Rightarrow> InputFilesType" where
  "set_property obj key v = (if key = lit ''__proto__'' then obj else assign_property obj key v)"

definition is_digit :: "jschar \<Rightarrow> bool" where
  "is_digit c = (48 \<le> c \<and> c \<le> 57)"

definition decimal_value :: "jsstring \<Rightarrow> nat" where
  "decimal_value key = foldl (\<lambda>acc c. 10 * acc + (unat c - 48)) 0 key"

definition is_array_index :: "jsstring \<Rightarrow> bool" where
  "is_array_index key =
     (key \<noteq> [] \<and> list_all is_digit key \<and> (if hd key = 48 then length key = 1 else True)
      \<and> decimal_value key < 4294967295)"

definition Object_keys :: "InputFilesType \<Rightarrow> jsstring list" where
  "Object_keys obj =
     (let keys = map fst obj
      in sort_key decimal_value (filter is_array_index keys)
         @ filter (\<lambda>key. \<not> is_array_index key) keys)"

text \<open>
  The two loops that fill \<open>inputFilesCreateModify\<close> and \<open>inputFilesDelete\<close>:
  \<open>obj[file] = `_${base58Encode(file)}`\<close> for every file of the list.
\<close>

definition encode_files :: "jsstring list \<Rightarrow> InputFilesType" where
  "encode_files files =
     foldl (\<lambda>obj file. set_property obj file ([95] @ base58Encode (Str file))) [] files"

text \<open>
  \<open>obj[file]\<close> where it is read: in a template literal and as a property key, where
  \<open>undefined\<close> becomes the text \<open>undefined\<close>.
\<close>

definition get_property :: "InputFilesType \<Rightarrow> jsstring \<Rightarrow> jsstring" where
  "get_property obj file = template (map_of obj file)"

definition file_query :: "InputFilesType \<Rightarrow> jsstring \<Rightarrow> jsstring" where
  \<open>file_query obj file =
     get_property obj file @ lit '':file(path:"'' @ file @ lit ''"){type}''\<close>

definition repoFiles_query :: "jsstring option \<Rightarrow> jsstring option \<Rightarrow> jsstring \<Rightarrow> jsstring \<Rightarrow> jsstring" where
  \<open>repoFiles_query repo_owner repo branch_name files_query =
     lit ''{\<newline>    repository(owner:"'' @ template repo_owner @ lit ''", name:"'' @ template repo
     @ lit ''") {\<newline>      ref(qualifiedName: "refs/heads/'' @ branch_name
     @ lit ''") {\<newline>        target{... on Commit{\<newline>          '' @ files_query
     @ lit ''\<newline>        }}\<newline>      }\<newline>    }\<newline>  }''\<close>

text \<open>\<open>fileResult != null\<close>: neither \<open>null\<close> nor \<open>undefined\<close>.\<close>

fun not_null :: "file_result \<Rightarrow> bool" where
  "not_null (FileObject t) = True"
| "not_null Null = False"
| "not_null Undefined = False"

text \<open>
  The callback over \<open>Object.keys(inputFilesCreateModify)\<close>, with the arrays
  \<open>createFiles\<close> and \<open>modifyFiles\<close> it pushes to.
\<close>

fun classify_createModify ::
  "RepoFilesQueryResponseType \<Rightarrow> InputFilesType \<Rightarrow> jsstring list \<Rightarrow> jsstring list \<Rightarrow> jsstring list
     \<Rightarrow> thrown + jsstring list \<times> jsstring list" where
  "classify_createModify request obj [] creates modifies = Inr (creates, modifies)"
| "classify_createModify request obj (file # rest) creates modifies =
     (case request of
        NoTarget msg \<Rightarrow> Inl (Error msg)
      | Target target \<Rightarrow>
          (let fileResult = target (get_property obj file);
               modifies = (if not_null fileResult then modifies @ [file] else modifies);
               creates = (if \<not> not_null fileResult then creates @ [file] else creates)
           in classify_createModify request obj rest creates modifies))"

text \<open>
  The callback over \<open>Object.keys(inputFilesDelete)\<close>, with the array \<open>deleteFiles\<close>
  and the lines it logs.
\<close>

fun classify_delete ::
  "RepoFilesQueryResponseType \<Rightarrow> InputFilesType \<Rightarrow> jsstring list \<Rightarrow> event list \<Rightarrow> jsstring list
     \<Rightarrow> event list \<times> (thrown + jsstring list)" where
  "classify_delete request obj [] evs deletes = (evs, Inr deletes)"
| "classify_delete request obj (file # rest) evs deletes =
     (case request of
        NoTarget msg \<Rightarrow> (evs, Inl (Error msg))
      | Target target \<Rightarrow>
          (let fileResult = target (get_property obj file);
               deletes = (if not_null fileResult then deletes @ [file] else deletes);
               evs = (if \<not> not_null fileResult
                      then evs @ [Info (lit ''input 'delete_file' not found in remote: '' @ file
                                        @ lit ''; ignoring'')]
                      else evs)
           in classify_delete request obj rest evs deletes))"

definition getRepoFiles ::
  "world \<Rightarrow> jsstring \<Rightarrow> jsstring option \<Rightarrow> jsstring option \<Rightarrow> jsstring \<Rightarrow> jsstring list \<Rightarrow> jsstring list
     \<Rightarrow> event list \<times> (thrown + RepoFilesActionType)" where
  "getRepoFiles w token repo_owner repo branch_name inputCreateModifyFiles inputDeleteFiles =
     (let inputFilesCreateModify = encode_files inputCreateModifyFiles;
          inputFilesDelete = encode_files inputDeleteFiles;
          queries = map (file_query inputFilesCreateModify) (Object_keys inputFilesCreateModify)
                    @ map (file_query inputFilesDelete) (Object_keys inputFilesDelete);
          files_query = join [44] queries;
          data = \<lparr>query = repoFiles_query repo_owner repo branch_name files_query, variables = None\<rparr>;
          call = RequestGraphQL token data
      in case request_repoFiles w token data of
           Inl e \<Rightarrow> ([call], Inl e)
         | Inr request \<Rightarrow>
             (case classify_createModify request inputFilesCreateModify
                     (Object_keys inputFilesCreateModify) [] [] of
                Inl e \<Rightarrow> ([call], Inl e)
              | Inr (creates, modifies) \<Rightarrow>
                  (case (if length inputDeleteFiles \<noteq> 0
                         then classify_delete request inputFilesDelete
                                (Object_keys inputFilesDelete) [] []
                         else ([], Inr [])) of
                     (infos, Inl e) \<Rightarrow> (call # infos, Inl e)
                   | (infos, Inr deletes) \<Rightarrow>
                       (call # infos,
                        Inr \<lparr>createFiles = (if length creates \<noteq> 0 then Some creates else None),
                             modifyFiles = (if length modifies \<noteq> 0 then Some modifies else None),
                             deleteFiles = (if length deletes \<noteq> 0 then Some deletes else None)\<rparr>))))"

section \<open>createCommit.ts\<close>

record CommitFileChangeType =
  path :: jsstring
  contents :: "jsstring option"

record CommitFileChangesType =
  additions :: "CommitFileChangeType list option"
  deletions :: "CommitFileChangeType list option"

record BranchType =
  repositoryNameWithOwner :: jsstring
  branchName :: jsstring

record CreateCommitInputType =
  branch :: BranchType
  commit_message :: CommitMessageType
  expectedHeadOid :: jsstring
  fileChanges :: CommitFileChangesType

definition mutation_query :: jsstring where
  "mutation_query =
     lit ''mutation ($input: CreateCommitOnBranchInput!) {\<newline>    createCommitOnBranch(input: $input) {\<newline>''
     @ lit ''      commit {\<newline>        url\<newline>      }\<newline>    }\<newline>  }''"

text \<open>
  The loops over \<open>createFiles\<close> and over \<open>modifyFiles\<close>:
  \<open>fileChanges.additions.push({ path: file, contents: readFileSync(file).toString('base64') })\<close>;
  a push to an \<open>additions\<close> that is undefined throws a \<open>TypeError\<close>.
\<close>

fun push_additions :: "world \<Rightarrow> jsstring list \<Rightarrow> CommitFileChangesType \<Rightarrow> thrown + CommitFileChangesType" where
  "push_additions w [] fc = Inr fc"
| "push_additions w (file # rest) fc =
     (case additions fc of
        None \<Rightarrow> Inl (Error (lit ''Cannot read properties of undefined (reading 'push')''))
      | Some xs \<Rightarrow>
          (case readFileSync_base64 w file of
             Inl e \<Rightarrow> Inl e
           | Inr c \<Rightarrow>
               push_additions w rest (fc\<lparr>additions := Some (xs @ [\<lparr>path = file, contents = Some c\<rparr>])\<rparr>)))"

text \<open>The object \<open>fileChanges\<close> as \<open>createCommit\<close> builds it.\<close>

definition createCommit_fileChanges :: "world \<Rightarrow> RepoFilesActionType \<Rightarrow> thrown + CommitFileChangesType" where
  "createCommit_fileChanges w fileActions =
     (let fc = \<lparr>additions = None, deletions = None\<rparr>;
          fc = (if defined (createFiles fileActions) \<or> defined (modifyFiles fileActions)
                then fc\<lparr>additions := Some []\<rparr> else fc)
      in case (case createFiles fileActions of None \<Rightarrow> Inr fc | Some fs \<Rightarrow> push_additions w fs fc) of
           Inl e \<Rightarrow> Inl e
         | Inr fc \<Rightarrow>
             (case (case modifyFiles fileActions of None \<Rightarrow> Inr fc | Some fs \<Rightarrow> push_additions w fs fc) of
                Inl e \<Rightarrow> Inl e
              | Inr fc \<Rightarrow>
                  Inr (case deleteFiles fileActions of
                         None \<Rightarrow> fc
                       | Some fs \<Rightarrow>
                           fc\<lparr>deletions := Some (map (\<lambda>file. \<lparr>path = file, contents = None\<rparr>) fs)\<rparr>)))"

text \<open>The object \<open>input\<close> and its text under \<open>JSON.stringify({ input: input })\<close>.\<close>

definition createCommit_input ::
  "world \<Rightarrow> jsstring option \<Rightarrow> jsstring option \<Rightarrow> jsstring \<Rightarrow> CommitMessageType \<Rightarrow> CommitFileChangesType
     \<Rightarrow> CreateCommitInputType" where
  "createCommit_input w repo_owner repo branch_name msg fc =
     \<lparr>branch = \<lparr>repositoryNameWithOwner = template repo_owner @ [47] @ template repo,
                 branchName = branch_name\<rparr>,
      commit_message = \<lparr>default_flag = None, headline = headline msg, body = body msg\<rparr>,
      expectedHeadOid = GITHUB_SHA w,
      fileChanges = fc\<rparr>"

definition json_of_change :: "CommitFileChangeType \<Rightarrow> json" where
  "json_of_change c =
     JObject ([(lit ''path'', JString (path c))]
              @ (case contents c of None \<Rightarrow> [] | Some t \<Rightarrow> [(lit ''contents'', JString t)]))"

definition json_of_fileChanges :: "CommitFileChangesType \<Rightarrow> json" where
  "json_of_fileChanges fc =
     JObject ((case additions fc of None \<Rightarrow> []
               | Some xs \<Rightarrow> [(lit ''additions'', JArray (map json_of_change xs))])
              @ (case deletions fc of None \<Rightarrow> []
                 | Some xs \<Rightarrow> [(lit ''deletions'', JArray (map json_of_change xs))]))"

definition json_of_input :: "CreateCommitInputType \<Rightarrow> json" where
  "json_of_input input =
     JObject
       [(lit ''branch'',
         JObject [(lit ''repositoryNameWithOwner'', JString (repositoryNameWithOwner (branch input))),
                  (lit ''branchName'', JString (branchName (branch input)))]),
        (lit ''message'',
         JObject ([(lit ''headline'', JString (headline (commit_message input)))]
                  @ (case body (commit_message input) of None \<Rightarrow> []
                     | Some t \<Rightarrow> [(lit ''body'', JString t)]))),
        (lit ''expectedHeadOid'', JString (expectedHeadOid input)),
        (lit ''fileChanges'', json_of_fileChanges (fileChanges input))]"

text \<open>The object \<open>data\<close>: the query statement and the input variables as JSON text.\<close>

definition createCommit_data :: "CreateCommitInputType \<Rightarrow> GraphQLDataType" where
  "createCommit_data input =
     \<lparr>query = mutation_query,
      variables = Some (JSON_stringify (JObject [(lit ''input'', json_of_input input)]))\<rparr>"

definition createCommit ::
  "world \<Rightarrow> jsstring \<Rightarrow> jsstring option \<Rightarrow> jsstring option \<Rightarrow> jsstring \<Rightarrow> CommitMessageType
     \<Rightarrow> RepoFilesActionType \<Rightarrow> event list \<times> (thrown + CreateCommitResponseType)" where
  "createCommit w token repo_owner repo branch_name msg fileActions =
     (case createCommit_fileChanges w fileActions of
        Inl e \<Rightarrow> ([], Inl e)
      | Inr fc \<Rightarrow>
          (let input = createCommit_input w repo_owner repo branch_name msg fc;
               data = createCommit_data input;
               call = RequestGraphQL token data
           in case request_commit w token data of
                Inl e \<Rightarrow> ([call], Inl e)
              | Inr execRequest \<Rightarrow>
                  (case errors execRequest of
                     Some errs \<Rightarrow>
                       (let messages = foldl (\<lambda>messages error. messages @ [message error]) [] errs
                        in ([call],
                            Inl (Error (lit ''error(s) processing the commit: ''
                                        @ JSON_stringify (JArray (map JString messages))))))
                   | None \<Rightarrow> ([call], Inr execRequest))))"

section \<open>index.ts\<close>

fun checkFilesExist :: "world \<Rightarrow> jsstring list \<Rightarrow> thrown + unit" where
  "checkFilesExist w [] = Inr ()"
| "checkFilesExist w (file # files) =
     (if \<not> existsSync w file
      then Inl (Error (lit ''create/modify file '' @ apostrophe @ file @ apostrophe
                       @ lit '' does not exist''))
      else checkFilesExist w files)"

definition generateDefaultCommitMessageBody :: "RepoFilesActionType \<Rightarrow> jsstring" where
  "generateDefaultCommitMessageBody files =
     (let out = [];
          out = (case createFiles files of
                   None \<Rightarrow> out
                 | Some fs \<Rightarrow>
                     foldl (\<lambda>out file. out @ [lit ''created  '' @ apostrophe @ file @ apostrophe]) out fs);
          out = (case modifyFiles files of
                   None \<Rightarrow> out
                 | Some fs \<Rightarrow>
                     foldl (\<lambda>out file. out @ [lit ''modified '' @ apostrophe @ file @ apostrophe]) out fs);
          out = (case deleteFiles files of
                   None \<Rightarrow> out
                 | Some fs \<Rightarrow>
                     foldl (\<lambda>out file. out @ [lit ''deleted  '' @ apostrophe @ file @ apostrophe]) out fs)
      in join [10] out)"

text \<open>
  The body of the \<open>try\<close> block of \<open>main\<close>: what it did to the outside, and the value
  it threw if it did not reach its end.
\<close>

definition main_try :: "world \<Rightarrow> event list \<times> (thrown + unit)" where
  "main_try w =
     (case getInputBranch w of
        Inl e \<Rightarrow> ([], Inl e)
      | Inr branch_name \<Rightarrow>
     (case getInputDeleteFiles w of
        Inl e \<Rightarrow> ([], Inl e)
      | Inr deletes \<Rightarrow>
     (case getInputFiles w of
        Inl e \<Rightarrow> ([], Inl e)
      | Inr files \<Rightarrow>
     (case getInputCommitMessage w of
        Inl e \<Rightarrow> ([], Inl e)
      | Inr msg \<Rightarrow>
     (case getInputRepository w of
        Inl e \<Rightarrow> ([], Inl e)
      | Inr repo \<Rightarrow>
     (case getInputToken w of
        (evs1, Inl e) \<Rightarrow> (evs1, Inl e)
      | (evs1, Inr token) \<Rightarrow>
     (case checkFilesExist w files of
        Inl e \<Rightarrow> (evs1, Inl e)
      | Inr u \<Rightarrow>
     (case getRepoFiles w token (owner repo) (repository repo) branch_name files deletes of
        (evs2, Inl e) \<Rightarrow> (evs1 @ evs2, Inl e)
      | (evs2, Inr repoFilesAction) \<Rightarrow>
     (let msg = (if default_flag msg = Some True
                 then msg\<lparr>body := Some (generateDefaultCommitMessageBody repoFilesAction)\<rparr>
                 else msg)
      in case createCommit w token (owner repo) (repository repo) branch_name msg repoFilesAction of
           (evs3, Inl e) \<Rightarrow> (evs1 @ evs2 @ evs3, Inl e)
         | (evs3, Inr resp) \<Rightarrow>
             (evs1 @ evs2 @ evs3
                @ (case data resp of
                     Some url \<Rightarrow> [Info (lit ''commit success: '' @ url)]
                   | None \<Rightarrow> []),
              Inr ()))))))))))"

text \<open>
  \<open>main\<close>: the \<open>try\<close> block and its handler
  \<open>catch (e) { if (e instanceof Error) setFailed(e.message) }\<close>.
\<close>

definition main :: "world \<Rightarrow> event list" where
  "main w =
     (case main_try w of
        (evs, Inl (Error msg)) \<Rightarrow> evs @ [SetFailed msg]
      | (evs, Inl (NonError v)) \<Rightarrow> evs
      | (evs, Inr u) \<Rightarrow> evs)"

section \<open>Auxiliary definitions of the verification\<close>

subsection \<open>A base58 decoder\<close>

text \<open>
  Modelled from the spec: the decoder of the base58 round trip. The repository has an
  encoder only; the spec's round trip decodes ``for test purposes''. \<open>base58Decode\<close>
  is the usual inverse: every leading \<open>1\<close> is a zero byte, the remaining characters
  are the base-58 digits of a number, most significant first, whose bytes follow.
\<close>

fun index_of :: "'a \<Rightarrow> 'a list \<Rightarrow> nat option" where
  "index_of c [] = None"
| "index_of c (x # xs) = (if c = x then Some 0 else map_option Suc (index_of c xs))"

fun b58_value :: "nat \<Rightarrow> jsstring \<Rightarrow> nat option" where
  "b58_value acc [] = Some acc"
| "b58_value acc (c # cs) =
     (case index_of c B58ALPHANUM of None \<Rightarrow> None | Some d \<Rightarrow> b58_value (58 * acc + d) cs)"

function bytes_of_nat :: "nat \<Rightarrow> byte list" where
  "bytes_of_nat n = (if n = 0 then [] else bytes_of_nat (n div 256) @ [of_nat (n mod 256)])"
  by pat_completeness auto
termination
  by (relation "measure (\<lambda>n. n)") auto

definition base58Decode :: "jsstring \<Rightarrow> byte list option" where
  "base58Decode s =
     (let zeros = takeWhile (\<lambda>c. c = B58ALPHANUM ! 0) s;
          digits = dropWhile (\<lambda>c. c = B58ALPHANUM ! 0) s
      in case b58_value 0 digits of
           None \<Rightarrow> None
         | Some x \<Rightarrow> Some (replicate (length zeros) 0 @ bytes_of_nat x))"

text \<open>
  The number a byte sequence stands for, most significant byte first, and the base-58
  digits of a number, most significant first.
\<close>

definition bytes_value :: "byte list \<Rightarrow> nat" where
  "bytes_value bs = foldl (\<lambda>acc b. 256 * acc + unat b) 0 bs"

function digits58 :: "nat \<Rightarrow> nat list" where
  "digits58 x = (if x = 0 then [] else digits58 (x div 58) @ [x mod 58])"
  by pat_completeness auto
termination
  by (relation "measure (\<lambda>n. n)") auto

subsection \<open>Example runs\<close>

text \<open>
  A run with no inputs, on the branch \<open>main\<close> of \<open>octocat/Hello-World\<close>, with no
  local files and a remote branch that has none of the files asked for.
\<close>

definition example_world :: world where
  "example_world =
     \<lparr>INPUT = (\<lambda>name. []),
      GITHUB_REF_NAME = lit ''main'',
      GITHUB_REPOSITORY = lit ''octocat/Hello-World'',
      GITHUB_SHA = lit ''0a1b'',
      GITHUB_TOKEN = lit ''secret'',
      existsSync = (\<lambda>file. False),
      readFileSync_utf8 = (\<lambda>file. Inl (Error (lit ''ENOENT''))),
      readFileSync_base64 = (\<lambda>file. Inl (Error (lit ''ENOENT''))),
      globSync = (\<lambda>pattern. []),
      request_repoFiles = (\<lambda>token d. Inr (Target (\<lambda>alias. Null))),
      request_commit = (\<lambda>token d. Inr \<lparr>data = Some (lit ''url''), errors = None\<rparr>)\<rparr>"

text \<open>The input \<open>repository: octocat\<close>, and the input \<open>repository: octocat/Hello-World\<close>.\<close>

definition world_repository_octocat :: world where
  "world_repository_octocat =
     example_world\<lparr>INPUT := (\<lambda>name. if name = lit ''repository'' then lit ''octocat'' else [])\<rparr>"

definition world_repository_hello :: world where
  "world_repository_hello =
     example_world
       \<lparr>INPUT := (\<lambda>name. if name = lit ''repository'' then lit ''octocat/Hello-World'' else []),
        GITHUB_REPOSITORY := lit ''wranders/commit-action''\<rparr>"

text \<open>
  The input \<open>message_file: msg.txt\<close>, the file holding an empty line, the title, an
  empty line and one line of body.
\<close>

definition world_message_file :: world where
  "world_message_file =
     example_world
       \<lparr>INPUT := (\<lambda>name. if name = lit ''message_file'' then lit ''msg.txt'' else []),
        existsSync := (\<lambda>file. file = lit ''msg.txt''),
        readFileSync_utf8 := (\<lambda>file. Inr (lit ''\<newline>Title\<newline>\<newline>Body''))\<rparr>"

text \<open>The remote branch has every file asked for.\<close>

definition world_remote_has_all :: world where
  "world_remote_has_all =
     example_world\<lparr>request_repoFiles := (\<lambda>token d. Inr (Target (\<lambda>alias. FileObject (lit ''blob''))))\<rparr>"

subsection \<open>Reading results\<close>

text \<open>
  The paths of a bucket that may be absent; the field alias that \<open>getRepoFiles\<close>
  derives from a path.
\<close>

definition bucket :: "jsstring list option \<Rightarrow> jsstring list" where
  "bucket files = (case files of None \<Rightarrow> [] | Some fs \<Rightarrow> fs)"

definition file_alias :: "jsstring \<Rightarrow> jsstring" where
  "file_alias file = [95] @ base58Encode (Str file)"

text \<open>
  The failure of \<open>createCommit\<close> on the errors of the response: an \<open>Error\<close> whose
  message starts with \<open>error(s) processing the commit: \<close>.
\<close>

definition CommitRejected :: "thrown + 'a \<Rightarrow> bool" where
  "CommitRejected r =
     (case r of
        Inl (Error msg) \<Rightarrow> take 32 msg = lit ''error(s) processing the commit: ''
      | Inl (NonError v) \<Rightarrow> False
      | Inr x \<Rightarrow> False)"

text \<open>The property names of a serialised object, in order.\<close>

fun json_keys :: "json \<Rightarrow> jsstring list" where
  "json_keys (JObject ps) = map fst ps"
| "json_keys (JArray xs) = []"
| "json_keys (JString s) = []"

text \<open>The value of a property of a serialised object.\<close>

fun json_member :: "json \<Rightarrow> jsstring \<Rightarrow> json option" where
  "json_member (JObject ps) key = map_of ps key"
| "json_member (JArray xs) key = None"
| "json_member (JString s) key = None"

text \<open>The message of \<open>checkFilesExist\<close> for a file.\<close>

definition not_found_message :: "jsstring \<Rightarrow> jsstring" where
  "not_found_message file =
     lit ''create/modify file '' @ apostrophe @ file @ apostrophe @ lit '' does not exist''"

text \<open>
  What an entry of the trace of a run is: a call of \<open>requestGraphQL\<close>, a call of
  \<open>setFailed\<close>, the line \<open>commit success: ...\<close> of \<open>info\<close>.
\<close>

fun is_request :: "event \<Rightarrow> bool" where
  "is_request (RequestGraphQL token d) = True"
| "is_request (Info msg) = False"
| "is_request (SetFailed msg) = False"
| "is_request (SetSecret s) = False"

fun is_SetFailed :: "event \<Rightarrow> bool" where
  "is_SetFailed (SetFailed msg) = True"
| "is_SetFailed (Info msg) = False"
| "is_SetFailed (SetSecret s) = False"
| "is_SetFailed (RequestGraphQL token d) = False"

fun is_success_info :: "event \<Rightarrow> bool" where
  "is_success_info (Info msg) = (take 16 msg = lit ''commit success: '')"
| "is_success_info (SetFailed msg) = False"
| "is_success_info (SetSecret s) = False"
| "is_success_info (RequestGraphQL token d) = False"

subsection \<open>More example runs\<close>

text \<open>
  The commit mutation is answered with the errors \<open>errs\<close>; a classification with one
  file to delete; a commit message; an error of the response with a given message.
\<close>

definition world_commit_errors :: "GraphQLError list \<Rightarrow> world" where
  "world_commit_errors errs =
     example_world\<lparr>request_commit := (\<lambda>token d. Inr \<lparr>data = None, errors = Some errs\<rparr>)\<rparr>"

definition delete_only :: RepoFilesActionType where
  "delete_only = \<lparr>createFiles = None, modifyFiles = None, deleteFiles = Some [lit ''c.txt'']\<rparr>"

definition example_message :: CommitMessageType where
  "example_message = \<lparr>default_flag = None, headline = lit ''Update README'', body = None\<rparr>"

definition error_with_message :: "jsstring \<Rightarrow> GraphQLError" where
  "error_with_message msg =
     \<lparr>error_type = lit ''UNPROCESSABLE'', error_path = [lit ''createCommitOnBranch''],
      message = msg\<rparr>"

text \<open>
  The input \<open>files: a*\<close> where the pattern matches the one file \<open>a.txt\<close>: the list of
  files is the line as written, \<open>a*\<close>, and no file of that name exists. The same
  without a token in the input or in the environment.
\<close>

definition world_missing_file :: world where
  "world_missing_file =
     example_world
       \<lparr>INPUT := (\<lambda>name. if name = lit ''files'' then lit ''a*'' else []),
        existsSync := (\<lambda>file. file = lit ''a.txt''),
        globSync := (\<lambda>pattern. [lit ''a.txt''])\<rparr>"

definition world_missing_file_no_token :: world where
  "world_missing_file_no_token = world_missing_file\<lparr>GITHUB_TOKEN := []\<rparr>"

text \<open>
  The input \<open>files: a.txt\<close>, the file exists, and the classification request is
  rejected with a value that is not an \<open>Error\<close>.
\<close>

definition world_rejecting :: world where
  "world_rejecting =
     example_world
       \<lparr>INPUT := (\<lambda>name. if name = lit ''files'' then lit ''a.txt'' else []),
        existsSync := (\<lambda>file. file = lit ''a.txt''),
        globSync := (\<lambda>pattern. [pattern]),
        request_repoFiles := (\<lambda>token d. Inl (NonError (lit ''closed'')))\<rparr>"

text \<open>
  The remote branch has the files \<open>b\<close> and \<open>c\<close> (aliases \<open>_2h\<close> and \<open>_2i\<close>)
  and every local file can be read; the classification of the files \<open>a\<close>, \<open>b\<close>
  with the files \<open>c\<close>, \<open>d\<close> to delete, and the file changes built from it.
\<close>

definition world_remote_has_b_c :: world where
  "world_remote_has_b_c =
     example_world
       \<lparr>readFileSync_base64 := (\<lambda>file. Inr (lit ''QQ=='')),
        request_repoFiles :=
          (\<lambda>token d. Inr (Target (\<lambda>alias. if alias \<in> set [lit ''_2h'', lit ''_2i'']
                                            then FileObject (lit ''blob'') else Null)))\<rparr>"

definition classified_a_b_c :: RepoFilesActionType where
  "classified_a_b_c =
     \<lparr>createFiles = Some [lit ''a''], modifyFiles = Some [lit ''b''], deleteFiles = Some [lit ''c'']\<rparr>"

definition changes_a_b_c :: CommitFileChangesType where
  "changes_a_b_c =
     \<lparr>additions = Some [\<lparr>path = lit ''a'', contents = Some (lit ''QQ=='')\<rparr>,
                        \<lparr>path = lit ''b'', contents = Some (lit ''QQ=='')\<rparr>],
      deletions = Some [\<lparr>path = lit ''c'', contents = None\<rparr>]\<rparr>"

section \<open>Evaluation\<close>

lemmas js_simps = lit_def apostrophe_def template_def trim_def is_white_space_def element_def
  Let_def

lemmas input_simps = example_world_def getInput_def getInput_required_def

lemmas b58_simps = to_Uint8Array_def base58Encode_bytes_def byte_hex_def hex_digit_def
  BigInt_hex_def hex_value_def B58ALPHANUM_def b58_while.simps b58_zeros.simps

lemmas getRepoFiles_simps = getRepoFiles_def encode_files_def set_property_def Object_keys_def
  is_array_index_def is_digit_def decimal_value_def get_property_def

lemmas resolver_simps = getInputBranch_def getInputDeleteFiles_def getInputFiles_def
  getInputCommitMessage_def getInputRepository_def getInputToken_def

section \<open>base58Encode\<close>

declare b58_while.simps [simp del] b58_zeros.simps [simp del] bytes_of_nat.simps [simp del]
  digits58.simps [simp del]

lemma B58_length: "length B58ALPHANUM = 58"
  by (simp add: B58ALPHANUM_def lit_def)

lemma B58_distinct: "distinct B58ALPHANUM"
  by (simp add: B58ALPHANUM_def lit_def)

lemma index_of_nth: "distinct xs \<Longrightarrow> i < length xs \<Longrightarrow> index_of (xs ! i) xs = Some i"
proof (induction xs arbitrary: i)
  case Nil
  then show ?case by simp
next
  case (Cons x xs)
  then show ?case by (cases i) auto
qed

lemma hex_value_digit: "d < 16 \<Longrightarrow> hex_value (hex_digit d) = d"
proof -
  assume "d < 16"
  then have "d = 0 \<or> d = 1 \<or> d = 2 \<or> d = 3 \<or> d = 4 \<or> d = 5 \<or> d = 6 \<or> d = 7
    \<or> d = 8 \<or> d = 9 \<or> d = 10 \<or> d = 11 \<or> d = 12 \<or> d = 13 \<or> d = 14 \<or> d = 15"
    by arith
  then show ?thesis
    by (auto simp: hex_value_def hex_digit_def lit_def)
qed

lemma foldl_byte_hex:
  "foldl (\<lambda>acc d. 16 * acc + hex_value d) a (byte_hex b) = 256 * a + unat b"
proof -
  have "unat b < 256" using unsigned_less [of b] by simp
  then have "unat b div 16 < 16" by simp
  moreover have "unat b mod 16 < 16" by simp
  ultimately show ?thesis by (simp add: byte_hex_def hex_value_digit)
qed

lemma foldl_hex_bytes:
  "foldl (\<lambda>acc d. 16 * acc + hex_value d) a (concat (map byte_hex bs))
     = foldl (\<lambda>acc b. 256 * acc + unat b) a bs"
  by (induction bs arbitrary: a) (simp_all add: foldl_byte_hex)

lemma BigInt_hex_bytes: "BigInt_hex (concat (map byte_hex bs)) = bytes_value bs"
  by (simp add: BigInt_hex_def bytes_value_def foldl_hex_bytes)

lemma b58_while_digits:
  "b58_while x out = out @ map (\<lambda>d. [B58ALPHANUM ! d]) (rev (digits58 x))"
proof (induction x out rule: b58_while.induct)
  case (1 x out)
  show ?case
  proof (cases "x > 0")
    case True
    then show ?thesis
      using "1" by (subst b58_while.simps, subst digits58.simps) simp
  next
    case False
    then show ?thesis by (subst b58_while.simps, subst digits58.simps) simp
  qed
qed

lemma b58_zeros_count:
  "b58_zeros input i out
     = out @ replicate (length (takeWhile (\<lambda>b. b = 0) (drop i input))) [B58ALPHANUM ! 0]"
proof (induction input i out rule: b58_zeros.induct)
  case (1 input i out)
  show ?case
  proof (cases "i < length input \<and> input ! i = 0")
    case True
    then have d: "drop i input = 0 # drop (Suc i) input"
      by (metis Cons_nth_drop_Suc)
    show ?thesis
      using True "1" by (subst b58_zeros.simps) (simp add: d replicate_append_same)
  next
    case False
    then have "takeWhile (\<lambda>b. b = 0) (drop i input) = []"
      by (cases "i < length input") (auto simp: takeWhile_eq_Nil_iff hd_drop_conv_nth)
    then show ?thesis using False by (subst b58_zeros.simps) auto
  qed
qed

lemma base58Encode_bytes_shape:
  "base58Encode_bytes bs
     = replicate (length (takeWhile (\<lambda>b. b = 0) bs)) (B58ALPHANUM ! 0)
       @ map (\<lambda>d. B58ALPHANUM ! d) (digits58 (bytes_value bs))"
  by (simp add: base58Encode_bytes_def Let_def BigInt_hex_bytes b58_while_digits b58_zeros_count
        rev_map o_def)

lemma digits58_lt: "list_all (\<lambda>d. d < 58) (digits58 x)"
proof (induction x rule: digits58.induct)
  case (1 x)
  then show ?case by (subst digits58.simps) simp
qed

lemma digits58_hd: "digits58 x \<noteq> [] \<Longrightarrow> hd (digits58 x) \<noteq> 0"
proof (induction x rule: digits58.induct)
  case (1 x)
  show ?case
  proof (cases "x = 0")
    case True
    then show ?thesis using "1.prems" by (simp add: digits58.simps)
  next
    case False
    show ?thesis
    proof (cases "digits58 (x div 58) = []")
      case True
      then have "x div 58 = 0" by (subst (asm) digits58.simps) (simp split: if_splits)
      then have "x mod 58 = x" by (simp add: div_eq_0_iff)
      then show ?thesis using False True by (subst digits58.simps) simp
    next
      case nonempty: False
      then show ?thesis using False "1.IH" by (subst digits58.simps) simp
    qed
  qed
qed

lemma digits58_value: "foldl (\<lambda>acc d. 58 * acc + d) 0 (digits58 x) = x"
proof (induction x rule: digits58.induct)
  case (1 x)
  then show ?case by (subst digits58.simps) simp
qed

lemma b58_value_digits:
  "list_all (\<lambda>d. d < 58) ds \<Longrightarrow>
   b58_value acc (map (\<lambda>d. B58ALPHANUM ! d) ds) = Some (foldl (\<lambda>acc d. 58 * acc + d) acc ds)"
  by (induction ds arbitrary: acc) (simp_all add: index_of_nth B58_distinct B58_length)

lemma B58_nth_zero: "d < 58 \<Longrightarrow> B58ALPHANUM ! d = B58ALPHANUM ! 0 \<longleftrightarrow> d = 0"
  using B58_distinct B58_length by (simp add: nth_eq_iff_index_eq)

lemma takeWhile_digits:
  "takeWhile (\<lambda>c. c = B58ALPHANUM ! 0) (map (\<lambda>d. B58ALPHANUM ! d) (digits58 x)) = []"
proof (cases "digits58 x")
  case Nil
  then show ?thesis by simp
next
  case (Cons d ds)
  then have "d \<noteq> 0" using digits58_hd [of x] by simp
  moreover have "d < 58" using digits58_lt [of x] Cons by simp
  ultimately show ?thesis using Cons by (simp add: B58_nth_zero)
qed

lemma bytes_value_snoc: "bytes_value (bs @ [b]) = 256 * bytes_value bs + unat b"
  by (simp add: bytes_value_def)

lemma bytes_value_zero: "bytes_value bs = 0 \<longleftrightarrow> list_all (\<lambda>b. b = 0) bs"
  by (induction bs rule: rev_induct) (auto simp: bytes_value_snoc bytes_value_def unat_eq_0)

lemma bytes_of_nat_value: "bytes_of_nat (bytes_value bs) = dropWhile (\<lambda>b. b = 0) bs"
proof (induction bs rule: rev_induct)
  case Nil
  then show ?case by (simp add: bytes_value_def bytes_of_nat.simps)
next
  case (snoc b bs)
  have lt: "unat b < 256" using unsigned_less [of b] by simp
  show ?case
  proof (cases "bytes_value (bs @ [b]) = 0")
    case True
    then have "list_all (\<lambda>b. b = 0) (bs @ [b])" by (simp only: bytes_value_zero)
    then have "dropWhile (\<lambda>b. b = 0) (bs @ [b]) = []"
      by (simp add: list_all_iff)
    then show ?thesis using True by (simp add: bytes_of_nat.simps)
  next
    case False
    have d: "(256 * bytes_value bs + unat b) div 256 = bytes_value bs" using lt by simp
    have m: "(256 * bytes_value bs + unat b) mod 256 = unat b" using lt by simp
    have step: "bytes_of_nat (bytes_value (bs @ [b])) = bytes_of_nat (bytes_value bs) @ [b]"
      using False lt by (subst bytes_of_nat.simps) (simp add: bytes_value_snoc d m)
    show ?thesis
    proof (cases "list_all (\<lambda>b. b = 0) bs")
      case True
      then have z: "bytes_value bs = 0" by (simp add: bytes_value_zero)
      then have "b \<noteq> 0" using False by (auto simp: bytes_value_snoc)
      then have "dropWhile (\<lambda>b. b = 0) (bs @ [b]) = [b]"
        using True by (simp add: dropWhile_append list_all_iff)
      moreover have "dropWhile (\<lambda>b. b = 0) bs = []" using True by (simp add: list_all_iff)
      ultimately show ?thesis using step snoc.IH by simp
    next
      case nz: False
      then have "dropWhile (\<lambda>b. b = 0) (bs @ [b]) = dropWhile (\<lambda>b. b = 0) bs @ [b]"
        by (auto simp: dropWhile_append list_all_iff)
      then show ?thesis using step snoc.IH by simp
    qed
  qed
qed

lemma replicate_takeWhile_dropWhile:
  "replicate (length (takeWhile (\<lambda>b. b = z) bs)) z @ dropWhile (\<lambda>b. b = z) bs = bs"
  by (induction bs) auto

lemma base58Decode_encode_bytes: "base58Decode (base58Encode_bytes bs) = Some bs"
proof -
  let ?one = "B58ALPHANUM ! 0"
  let ?z = "length (takeWhile (\<lambda>b. b = 0) bs)"
  let ?ds = "map (\<lambda>d. B58ALPHANUM ! d) (digits58 (bytes_value bs))"
  have tw: "takeWhile (\<lambda>c. c = ?one) (replicate ?z ?one @ ?ds) = replicate ?z ?one"
    by (simp add: takeWhile_append takeWhile_digits)
  have dw: "dropWhile (\<lambda>c. c = ?one) (replicate ?z ?one @ ?ds) = ?ds"
  proof -
    have "dropWhile (\<lambda>c. c = ?one) ?ds = ?ds"
      using takeWhile_digits [of "bytes_value bs"] takeWhile_dropWhile_id [of "\<lambda>c. c = ?one" ?ds]
      by simp
    then show ?thesis by (simp add: dropWhile_append)
  qed
  have v: "b58_value 0 ?ds = Some (bytes_value bs)"
    by (simp add: b58_value_digits digits58_lt digits58_value)
  show ?thesis
    unfolding base58Decode_def base58Encode_bytes_shape Let_def tw dw v
    by (simp add: bytes_of_nat_value replicate_takeWhile_dropWhile)
qed


lemma base58Encode_bytes_Nil: "base58Encode_bytes [] = []"
  by (simp add: base58Encode_bytes_shape bytes_value_def digits58.simps)

lemma base58Encode_Bytes: "base58Encode (Bytes bs) = base58Encode_bytes bs"
  by (simp add: base58Encode_bytes_Nil)

lemma base58Encode_Str: "base58Encode (Str s) = base58Encode_bytes (to_Uint8Array s)"
  by (simp add: base58Encode_bytes_Nil to_Uint8Array_def)

lemma bytes_value_zeros: "bytes_value (replicate n 0 @ bs) = bytes_value bs"
  by (induction n) (simp_all add: bytes_value_def)

lemma takeWhile_zeros:
  "length (takeWhile (\<lambda>b. b = 0) (replicate n (0::byte) @ bs))
     = n + length (takeWhile (\<lambda>b. b = 0) bs)"
  by (induction n) simp_all

lemma base58Encode_bytes_zeros:
  "base58Encode_bytes (replicate n 0 @ bs) = replicate n (B58ALPHANUM ! 0) @ base58Encode_bytes bs"
  by (simp add: base58Encode_bytes_shape bytes_value_zeros takeWhile_zeros replicate_add)

lemma B58_first: "B58ALPHANUM ! 0 = 49"
  by (simp add: B58ALPHANUM_def lit_def)

text \<open>
  C8. Decoding the base58 encoding of a byte sequence gives the byte sequence back, so
  the encoding of byte sequences is injective; the empty input, as a string or as bytes,
  is encoded as the empty string; and \<open>n\<close> more zero bytes at the front of the input
  give \<open>n\<close> more characters \<open>1\<close> (code unit 49, the first of the alphabet) at the
  front of the output.
\<close>

theorem base58Encode_round_trip:
  "base58Decode (base58Encode (Bytes bs)) = Some bs
   \<and> inj (\<lambda>bs. base58Encode (Bytes bs))
   \<and> base58Encode (Bytes []) = [] \<and> base58Encode (Str []) = []
   \<and> base58Encode (Bytes (replicate n 0 @ bs)) = replicate n 49 @ base58Encode (Bytes bs)"
proof -
  have "inj (\<lambda>bs. base58Encode (Bytes bs))"
  proof (rule injI)
    fix bs cs
    assume "base58Encode (Bytes bs) = base58Encode (Bytes cs)"
    then have "base58Decode (base58Encode_bytes bs) = base58Decode (base58Encode_bytes cs)"
      by (simp only: base58Encode_Bytes)
    then show "bs = cs" by (simp only: base58Decode_encode_bytes option.inject)
  qed
  then show ?thesis
    by (simp only: base58Encode_Bytes base58Decode_encode_bytes base58Encode_bytes_zeros B58_first
          base58Encode_Str to_Uint8Array_def base58Encode_bytes_Nil list.map simp_thms)
qed

section \<open>getInputRepository\<close>

text \<open>
  C1. For the input \<open>repository: octocat\<close>, which has no slash, \<open>getInputRepository\<close>
  does not fail: it returns the owner \<open>octocat\<close> and an undefined repository. For the
  input \<open>repository: octocat/Hello-World\<close> it returns the owner \<open>octocat\<close> and the
  repository \<open>Hello-World\<close>.
\<close>

theorem getInputRepository_no_slash:
  "getInputRepository world_repository_octocat
     = Inr \<lparr>owner = Some (lit ''octocat''), repository = None\<rparr>
   \<and> getInputRepository world_repository_hello
     = Inr \<lparr>owner = Some (lit ''octocat''), repository = Some (lit ''Hello-World'')\<rparr>"
  by (simp add: getInputRepository_def world_repository_octocat_def world_repository_hello_def
        input_simps js_simps)

section \<open>getInputCommitMessage\<close>

text \<open>
  C4. For a message file with an empty line, the title, an empty line and a line of body,
  \<open>getInputCommitMessage\<close> returns an empty headline, and the title is in neither
  the headline nor the body: the loop that drops the leading empty lines shifts the array
  it iterates over, so it also drops the title.
\<close>

theorem getInputCommitMessage_title_lost:
  "getInputCommitMessage world_message_file
     = Inr \<lparr>default_flag = None, headline = [], body = Some (lit ''Body'')\<rparr>"
  by (simp add: getInputCommitMessage_def commit_message_of_lines_def world_message_file_def
        input_simps js_simps)

section \<open>generateDefaultCommitMessageBody\<close>

lemma foldl_push: "foldl (\<lambda>out file. out @ [f file]) out fs = out @ map f fs"
  by (induction fs arbitrary: out) simp_all

text \<open>
  C7. The body has one line per file, the created files first, then the modified, then
  the deleted ones, each path in apostrophes after \<open>created\<close> and two spaces,
  \<open>modified\<close> and one space, or \<open>deleted\<close> and two spaces; the lines are joined by
  a line feed and an absent bucket gives no line. For \<open>a.txt\<close> created, \<open>b.txt\<close>
  modified and \<open>c.txt\<close> deleted it is the text of the claim.
\<close>

theorem generateDefaultCommitMessageBody_lines:
  "generateDefaultCommitMessageBody \<lparr>createFiles = cs, modifyFiles = ms, deleteFiles = ds\<rparr>
     = join [10]
         (map (\<lambda>file. lit ''created  '' @ apostrophe @ file @ apostrophe) (bucket cs)
          @ map (\<lambda>file. lit ''modified '' @ apostrophe @ file @ apostrophe) (bucket ms)
          @ map (\<lambda>file. lit ''deleted  '' @ apostrophe @ file @ apostrophe) (bucket ds))
   \<and> generateDefaultCommitMessageBody
         \<lparr>createFiles = Some [lit ''a.txt''], modifyFiles = Some [lit ''b.txt''],
          deleteFiles = Some [lit ''c.txt'']\<rparr>
       = lit ''created  'a.txt'\<newline>modified 'b.txt'\<newline>deleted  'c.txt'' @ apostrophe"
proof
  show "generateDefaultCommitMessageBody \<lparr>createFiles = cs, modifyFiles = ms, deleteFiles = ds\<rparr>
     = join [10]
         (map (\<lambda>file. lit ''created  '' @ apostrophe @ file @ apostrophe) (bucket cs)
          @ map (\<lambda>file. lit ''modified '' @ apostrophe @ file @ apostrophe) (bucket ms)
          @ map (\<lambda>file. lit ''deleted  '' @ apostrophe @ file @ apostrophe) (bucket ds))"
    by (simp add: generateDefaultCommitMessageBody_def bucket_def foldl_push Let_def
          split: option.splits)
  show "generateDefaultCommitMessageBody
         \<lparr>createFiles = Some [lit ''a.txt''], modifyFiles = Some [lit ''b.txt''],
          deleteFiles = Some [lit ''c.txt'']\<rparr>
       = lit ''created  'a.txt'\<newline>modified 'b.txt'\<newline>deleted  'c.txt'' @ apostrophe"
    by (simp add: generateDefaultCommitMessageBody_def js_simps)
qed

section \<open>getRepoFiles\<close>

text \<open>
  C3. The paths \<open>a\<close> (code unit 97) and \<open>s\<close> with a caron (code unit 353), which differ, get
  the same alias \<open>_2g\<close>: \<open>base58Encode\<close> stores the code units of a string in an
  array of bytes, which keeps \<open>353 mod 256 = 97\<close>.
\<close>

theorem alias_collision:
  "lit ''a'' \<noteq> [353]
   \<and> encode_files [lit ''a'', [353]] = [(lit ''a'', lit ''_2g''), ([353], lit ''_2g'')]"
  by (simp add: encode_files_def set_property_def b58_simps js_simps)

text \<open>
  Paths whose code units are all below 256 do get different aliases: for them the bytes
  are the code units, and the encoding of bytes can be decoded.
\<close>

lemma unat_to_byte: "c < 256 \<Longrightarrow> unat (ucast (c :: jschar) :: byte) = unat c"
proof -
  assume "c < 256"
  then have "unat c < 256" by (simp add: word_less_nat_alt)
  then show ?thesis by (simp add: unsigned_ucast_eq take_bit_eq_mod)
qed

lemma to_byte_inj:
  "c < 256 \<Longrightarrow> d < 256 \<Longrightarrow> (ucast (c :: jschar) :: byte) = ucast (d :: jschar) \<Longrightarrow> c = d"
  by (metis unat_to_byte word_unat_eq_iff)

lemma to_Uint8Array_inj:
  "list_all (\<lambda>c. c < 256) s \<Longrightarrow> list_all (\<lambda>c. c < 256) t \<Longrightarrow>
   to_Uint8Array s = to_Uint8Array t \<Longrightarrow> s = t"
proof (induction s arbitrary: t)
  case Nil
  then show ?case by (simp add: to_Uint8Array_def)
next
  case (Cons c s)
  then obtain d t' where t: "t = d # t'" by (cases t) (auto simp: to_Uint8Array_def)
  with Cons.prems have "c = d" and "to_Uint8Array s = to_Uint8Array t'"
    by (auto simp: to_Uint8Array_def dest: to_byte_inj)
  with Cons t show ?case by simp
qed

lemma file_alias_inj_low:
  assumes "list_all (\<lambda>c. c < 256) s" and "list_all (\<lambda>c. c < 256) t"
    and "file_alias s = file_alias t"
  shows "s = t"
proof -
  from assms(3) have "base58Encode_bytes (to_Uint8Array s) = base58Encode_bytes (to_Uint8Array t)"
    by (simp only: file_alias_def base58Encode_Str same_append_eq)
  then have "base58Decode (base58Encode_bytes (to_Uint8Array s))
    = base58Decode (base58Encode_bytes (to_Uint8Array t))" by simp
  then have "to_Uint8Array s = to_Uint8Array t"
    by (simp only: base58Decode_encode_bytes option.inject)
  with assms(1,2) show ?thesis by (rule to_Uint8Array_inj)
qed

lemma assign_property_pairs:
  "p \<in> set (assign_property obj key v) \<Longrightarrow> p \<in> set obj \<or> p = (key, v)"
  by (induction obj) (auto split: if_splits)

lemma set_property_pairs:
  "p \<in> set (set_property obj key v) \<Longrightarrow> p \<in> set obj \<or> p = (key, v)"
  by (auto simp: set_property_def dest: assign_property_pairs split: if_splits)

lemma foldl_set_property_pairs:
  "p \<in> set (foldl (\<lambda>obj file. set_property obj file (file_alias file)) obj files)
   \<Longrightarrow> p \<in> set obj \<or> (fst p \<in> set files \<and> snd p = file_alias (fst p))"
proof (induction files arbitrary: obj)
  case Nil
  then show ?case by simp
next
  case (Cons f fs)
  from Cons.IH [OF Cons.prems [simplified]] show ?case
    by (auto dest: set_property_pairs)
qed

lemma encode_files_pairs:
  "p \<in> set (encode_files files) \<Longrightarrow> fst p \<in> set files \<and> snd p = file_alias (fst p)"
  using foldl_set_property_pairs [of p "[]" files]
  by (simp add: encode_files_def file_alias_def)

lemma map_of_encode_files:
  assumes "file \<in> fst ` set (encode_files files)"
  shows "map_of (encode_files files) file = Some (file_alias file)"
proof -
  from assms obtain v where "map_of (encode_files files) file = Some v"
    by (metis domD dom_map_of_conv_image_fst)
  moreover from this have "(file, v) \<in> set (encode_files files)" by (rule map_of_SomeD)
  then have "v = file_alias file" using encode_files_pairs by fastforce
  ultimately show ?thesis by simp
qed

lemma set_Object_keys: "set (Object_keys obj) = fst ` set obj"
  by (auto simp: Object_keys_def Let_def)

lemma Object_keys_encode_files:
  "file \<in> set (Object_keys (encode_files files)) \<Longrightarrow>
   file \<in> set files \<and> get_property (encode_files files) file = file_alias file"
proof -
  assume "file \<in> set (Object_keys (encode_files files))"
  then have k: "file \<in> fst ` set (encode_files files)" by (simp add: set_Object_keys)
  then have "file \<in> set files" using encode_files_pairs by fastforce
  then show ?thesis using k by (simp add: get_property_def map_of_encode_files template_def)
qed

lemma classify_createModify_Target:
  "classify_createModify (Target t) obj keys cs ms
     = Inr (cs @ filter (\<lambda>file. \<not> not_null (t (get_property obj file))) keys,
            ms @ filter (\<lambda>file. not_null (t (get_property obj file))) keys)"
  by (induction keys arbitrary: cs ms) (simp_all add: Let_def)

lemma classify_createModify_NoTarget:
  "classify_createModify (NoTarget m) obj keys cs ms = Inr r \<Longrightarrow> r = (cs, ms)"
  by (cases keys) simp_all

lemma classify_delete_Target:
  "snd (classify_delete (Target t) obj keys evs ds)
     = Inr (ds @ filter (\<lambda>file. not_null (t (get_property obj file))) keys)"
  by (induction keys arbitrary: evs ds) (simp_all add: Let_def)

lemma classify_delete_NoTarget:
  "classify_delete (NoTarget m) obj keys evs ds = (evs', Inr r) \<Longrightarrow> r = ds"
  by (cases keys) simp_all

text \<open>What getRepoFiles returns, in terms of the answer of the remote.\<close>

lemma getRepoFiles_Inr:
  assumes "getRepoFiles w token repo_owner repo branch_name cm del = (evs, Inr r)"
  obtains request creates modifies infos deletes where
    "classify_createModify request (encode_files cm) (Object_keys (encode_files cm)) [] []
       = Inr (creates, modifies)"
    "(if length del \<noteq> 0
      then classify_delete request (encode_files del) (Object_keys (encode_files del)) [] []
      else ([], Inr [])) = (infos, Inr deletes)"
    "r = \<lparr>createFiles = (if length creates \<noteq> 0 then Some creates else None),
          modifyFiles = (if length modifies \<noteq> 0 then Some modifies else None),
          deleteFiles = (if length deletes \<noteq> 0 then Some deletes else None)\<rparr>"
proof -
  let ?data = "\<lparr>query = repoFiles_query repo_owner repo branch_name
                  (join [44] (map (file_query (encode_files cm)) (Object_keys (encode_files cm))
                     @ map (file_query (encode_files del)) (Object_keys (encode_files del)))),
                variables = None\<rparr>"
  let ?del = "if length del \<noteq> 0
      then classify_delete request (encode_files del) (Object_keys (encode_files del)) [] []
      else ([], Inr [])"
  from assms obtain request where req: "request_repoFiles w token ?data = Inr request"
    unfolding getRepoFiles_def Let_def by (cases "request_repoFiles w token ?data") auto
  from assms req obtain creates modifies where
    cm: "classify_createModify request (encode_files cm) (Object_keys (encode_files cm)) [] []
       = Inr (creates, modifies)"
    unfolding getRepoFiles_def Let_def
    by (cases "classify_createModify request (encode_files cm) (Object_keys (encode_files cm)) [] []")
      auto
  obtain infos res where
    d: "(if length del \<noteq> 0
      then classify_delete request (encode_files del) (Object_keys (encode_files del)) [] []
      else ([], Inr [])) = (infos, res)"
    by (cases "if length del \<noteq> 0
      then classify_delete request (encode_files del) (Object_keys (encode_files del)) [] []
      else ([], Inr [])") blast
  from assms req cm d obtain deletes where res: "res = Inr deletes"
    unfolding getRepoFiles_def Let_def by (cases res) auto
  from assms req cm d res have
    "r = \<lparr>createFiles = (if length creates \<noteq> 0 then Some creates else None),
          modifyFiles = (if length modifies \<noteq> 0 then Some modifies else None),
          deleteFiles = (if length deletes \<noteq> 0 then Some deletes else None)\<rparr>"
    unfolding getRepoFiles_def Let_def by simp
  with cm d res that show thesis by blast
qed

lemma bucket_if: "bucket (if length xs \<noteq> 0 then Some xs else None) = xs"
  by (cases xs) (simp_all add: bucket_def)

text \<open>
  C2, as amended. Whatever the two input lists and the answer of the remote, no path is in
  \<open>createFiles\<close> and also in \<open>modifyFiles\<close> or in \<open>deleteFiles\<close>; a path that
  is both in \<open>modifyFiles\<close> and in \<open>deleteFiles\<close> occurs in both input lists, so
  the three buckets are pairwise disjoint when the two inputs share no path.
\<close>

theorem getRepoFiles_buckets:
  assumes "getRepoFiles w token repo_owner repo branch_name cm del = (evs, Inr r)"
  shows "set (bucket (createFiles r)) \<inter> set (bucket (modifyFiles r)) = {}
       \<and> set (bucket (createFiles r)) \<inter> set (bucket (deleteFiles r)) = {}
       \<and> set (bucket (modifyFiles r)) \<inter> set (bucket (deleteFiles r)) \<subseteq> set cm \<inter> set del"
proof -
  from assms obtain request creates modifies infos deletes where
    cm: "classify_createModify request (encode_files cm) (Object_keys (encode_files cm)) [] []
             = Inr (creates, modifies)"
    and d: "(if length del \<noteq> 0
             then classify_delete request (encode_files del) (Object_keys (encode_files del)) [] []
             else ([], Inr [])) = (infos, Inr deletes)"
    and r: "r = \<lparr>createFiles = (if length creates \<noteq> 0 then Some creates else None),
                 modifyFiles = (if length modifies \<noteq> 0 then Some modifies else None),
                 deleteFiles = (if length deletes \<noteq> 0 then Some deletes else None)\<rparr>"
    by (rule getRepoFiles_Inr)
  have b: "bucket (createFiles r) = creates" "bucket (modifyFiles r) = modifies"
    "bucket (deleteFiles r) = deletes"
    unfolding r by (simp_all only: RepoFilesActionType.simps bucket_if)
  show ?thesis
  proof (cases request)
    case (NoTarget m)
    from cm have "creates = []" "modifies = []"
      using classify_createModify_NoTarget [of m] by (auto simp: NoTarget)
    then show ?thesis by (simp add: b)
  next
    case (Target t)
    let ?P = "\<lambda>obj file. not_null (t (get_property obj file))"
    from cm have c: "creates = filter (\<lambda>file. \<not> ?P (encode_files cm) file) (Object_keys (encode_files cm))"
      and m: "modifies = filter (?P (encode_files cm)) (Object_keys (encode_files cm))"
      by (simp_all add: Target classify_createModify_Target)
    have dsub: "set deletes \<subseteq> set (filter (?P (encode_files del)) (Object_keys (encode_files del)))"
    proof (cases "length del \<noteq> 0")
      case True
      with d have "snd (classify_delete (Target t) (encode_files del) (Object_keys (encode_files del)) [] [])
        = Inr deletes" by (simp add: Target)
      then show ?thesis by (simp add: classify_delete_Target)
    next
      case False
      with d show ?thesis by simp
    qed
    have 1: "set creates \<inter> set modifies = {}" by (auto simp: c m)
    have 2: "set creates \<inter> set deletes = {}"
    proof -
      have False if "f \<in> set creates" "f \<in> set deletes" for f
      proof -
        from that(1) have "f \<in> set (Object_keys (encode_files cm))"
          and n: "\<not> ?P (encode_files cm) f" by (simp_all add: c)
        then have a1: "get_property (encode_files cm) f = file_alias f"
          using Object_keys_encode_files by blast
        from that(2) dsub have "f \<in> set (Object_keys (encode_files del))"
          and y: "?P (encode_files del) f" by auto
        then have "get_property (encode_files del) f = file_alias f"
          using Object_keys_encode_files by blast
        with a1 n y show False by simp
      qed
      then show ?thesis by blast
    qed
    have 3: "set modifies \<inter> set deletes \<subseteq> set cm \<inter> set del"
      using dsub Object_keys_encode_files by (auto simp: m)
    from 1 2 3 show ?thesis by (simp add: b)
  qed
qed


theorem getRepoFiles_buckets_witness:
  "snd (getRepoFiles example_world (lit ''secret'') (Some (lit ''octocat''))
          (Some (lit ''Hello-World'')) (lit ''main'') [lit ''a''] [lit ''b''])
     = Inr \<lparr>createFiles = Some [lit ''a''], modifyFiles = None, deleteFiles = None\<rparr>
   \<and> set (bucket (Some [lit ''a''])) \<inter> set (bucket None) = {}
   \<and> set (bucket (Some [lit ''a''])) \<inter> set (bucket None) = {}
   \<and> set (bucket None) \<inter> set (bucket None) \<subseteq> set [lit ''a''] \<inter> set [lit ''b'']"
proof -
  have run: "snd (getRepoFiles example_world (lit ''secret'') (Some (lit ''octocat''))
          (Some (lit ''Hello-World'')) (lit ''main'') [lit ''a''] [lit ''b''])
     = Inr \<lparr>createFiles = Some [lit ''a''], modifyFiles = None, deleteFiles = None\<rparr>"
    by (simp add: example_world_def getRepoFiles_simps b58_simps js_simps)
  then have "getRepoFiles example_world (lit ''secret'') (Some (lit ''octocat''))
          (Some (lit ''Hello-World'')) (lit ''main'') [lit ''a''] [lit ''b'']
     = (fst (getRepoFiles example_world (lit ''secret'') (Some (lit ''octocat''))
          (Some (lit ''Hello-World'')) (lit ''main'') [lit ''a''] [lit ''b'']),
        Inr \<lparr>createFiles = Some [lit ''a''], modifyFiles = None, deleteFiles = None\<rparr>)"
    by (metis prod.collapse)
  from getRepoFiles_buckets [OF this] run show ?thesis by simp
qed

text \<open>
  C2, as stated, fails when the path \<open>a\<close> is in both input lists and is on the remote
  branch: it is in \<open>modifyFiles\<close> and in \<open>deleteFiles\<close>.
\<close>

theorem getRepoFiles_overlap:
  "snd (getRepoFiles world_remote_has_all (lit ''secret'') (Some (lit ''octocat''))
          (Some (lit ''Hello-World'')) (lit ''main'') [lit ''a''] [lit ''a''])
     = Inr \<lparr>createFiles = None, modifyFiles = Some [lit ''a''], deleteFiles = Some [lit ''a'']\<rparr>"
  by (simp add: world_remote_has_all_def example_world_def getRepoFiles_simps b58_simps js_simps)

section \<open>createCommit\<close>

lemma foldl_messages: "foldl (\<lambda>messages error. messages @ [message error]) ms errs = ms @ map message errs"
  by (induction errs arbitrary: ms) simp_all

lemma CommitRejected_prefix:
  "CommitRejected (Inl (Error (lit ''error(s) processing the commit: '' @ rest)))"
  by (simp add: CommitRejected_def lit_def)

text \<open>
  C5, as amended. When the file changes are built and the request is answered,
  \<open>createCommit\<close> fails with the commit rejection exactly when the response has an
  \<open>errors\<close> list, empty or not: the message is \<open>error(s) processing the commit: \<close>
  followed by the JSON text of the array of the errors' messages, in the order of the
  response; without an \<open>errors\<close> list the response is returned as it is.
\<close>

theorem createCommit_rejected:
  assumes "createCommit_fileChanges w fileActions = Inr fc"
    and "request_commit w token
           (createCommit_data (createCommit_input w repo_owner repo branch_name msg fc)) = Inr resp"
  shows "snd (createCommit w token repo_owner repo branch_name msg fileActions)
           = (case errors resp of
                Some errs \<Rightarrow>
                  Inl (Error (lit ''error(s) processing the commit: ''
                              @ JSON_stringify (JArray (map (\<lambda>error. JString (message error)) errs))))
              | None \<Rightarrow> Inr resp)
         \<and> (CommitRejected (snd (createCommit w token repo_owner repo branch_name msg fileActions))
              \<longleftrightarrow> defined (errors resp))"
proof -
  have r: "snd (createCommit w token repo_owner repo branch_name msg fileActions)
           = (case errors resp of
                Some errs \<Rightarrow>
                  Inl (Error (lit ''error(s) processing the commit: ''
                              @ JSON_stringify (JArray (map (\<lambda>error. JString (message error)) errs))))
              | None \<Rightarrow> Inr resp)"
    using assms by (simp add: createCommit_def Let_def foldl_messages o_def split: option.splits)
  show ?thesis
  proof (cases "errors resp")
    case None
    then show ?thesis using r by (simp add: CommitRejected_def)
  next
    case (Some errs)
    then show ?thesis using r by (simp add: CommitRejected_prefix)
  qed
qed

lemma delete_only_fileChanges:
  "createCommit_fileChanges w delete_only
     = Inr \<lparr>additions = None, deletions = Some [\<lparr>path = lit ''c.txt'', contents = None\<rparr>]\<rparr>"
  by (simp add: createCommit_fileChanges_def delete_only_def)

text \<open>
  For the errors \<open>ref not found\<close> and \<open>oid mismatch\<close> the message names both, in
  that order.
\<close>

theorem createCommit_rejected_witness:
  \<open>snd (createCommit
          (world_commit_errors [error_with_message (lit ''ref not found''),
                                error_with_message (lit ''oid mismatch'')])
          (lit ''secret'') (Some (lit ''octocat'')) (Some (lit ''Hello-World'')) (lit ''main'')
          example_message delete_only)
     = Inl (Error (lit ''error(s) processing the commit: ["ref not found","oid mismatch"]''))\<close>
  using createCommit_rejected
    [of "world_commit_errors [error_with_message (lit ''ref not found''),
                                error_with_message (lit ''oid mismatch'')]" delete_only
        "\<lparr>additions = None, deletions = Some [\<lparr>path = lit ''c.txt'', contents = None\<rparr>]\<rparr>"
        "lit ''secret''" "Some (lit ''octocat'')" "Some (lit ''Hello-World'')" "lit ''main''"
        example_message
        "\<lparr>data = None, errors = Some [error_with_message (lit ''ref not found''),
                                error_with_message (lit ''oid mismatch'')]\<rparr>"]
  by (simp add: delete_only_fileChanges world_commit_errors_def example_world_def
        error_with_message_def json_escape_def is_high_surrogate_def is_low_surrogate_def lit_def)

text \<open>
  C5, as stated, fails for a response whose \<open>errors\<close> list is empty: the test is
  \<open>execRequest.errors !== undefined\<close>, so \<open>createCommit\<close> fails there too.
\<close>

theorem createCommit_empty_error_list:
  "snd (createCommit (world_commit_errors []) (lit ''secret'') (Some (lit ''octocat''))
          (Some (lit ''Hello-World'')) (lit ''main'') example_message delete_only)
     = Inl (Error (lit ''error(s) processing the commit: []''))"
  by (simp add: createCommit_def delete_only_fileChanges world_commit_errors_def example_world_def
        Let_def lit_def)

lemma push_additions_fields:
  "push_additions w fs fc = Inr fc' \<Longrightarrow>
   defined (additions fc') = defined (additions fc) \<and> deletions fc' = deletions fc"
proof (induction fs arbitrary: fc)
  case Nil
  then show ?case by simp
next
  case (Cons f fs)
  from Cons.prems obtain c xs where
    "push_additions w fs (fc\<lparr>additions := Some (xs @ [\<lparr>path = f, contents = Some c\<rparr>])\<rparr>) = Inr fc'"
    and "additions fc = Some xs"
    by (auto split: sum.splits option.splits)
  with Cons.IH show ?case by fastforce
qed

lemma createCommit_fileChanges_fields:
  assumes "createCommit_fileChanges w fileActions = Inr fc"
  shows "defined (additions fc)
           = (defined (createFiles fileActions) \<or> defined (modifyFiles fileActions))"
    and "defined (deletions fc) = defined (deleteFiles fileActions)"
proof -
  let ?fc0 = "if defined (createFiles fileActions) \<or> defined (modifyFiles fileActions)
              then \<lparr>additions = None, deletions = None\<rparr>\<lparr>additions := Some []\<rparr>
              else \<lparr>additions = None, deletions = None\<rparr>"
  let ?r1 = "case createFiles fileActions of None \<Rightarrow> Inr ?fc0 | Some fs \<Rightarrow> push_additions w fs ?fc0"
  from assms obtain fc1 where 1: "?r1 = Inr fc1"
    unfolding createCommit_fileChanges_def Let_def by (cases ?r1) simp_all
  let ?r2 = "case modifyFiles fileActions of None \<Rightarrow> Inr fc1 | Some fs \<Rightarrow> push_additions w fs fc1"
  from assms 1 obtain fc2 where 2: "?r2 = Inr fc2"
    unfolding createCommit_fileChanges_def Let_def by (cases ?r2) simp_all
  from assms 1 2 have
    3: "fc = (case deleteFiles fileActions of
                    None \<Rightarrow> fc2
                  | Some fs \<Rightarrow> fc2\<lparr>deletions := Some (map (\<lambda>file. \<lparr>path = file, contents = None\<rparr>) fs)\<rparr>)"
    unfolding createCommit_fileChanges_def Let_def by simp
  have f1: "defined (additions fc1) = defined (additions ?fc0) \<and> deletions fc1 = deletions ?fc0"
    using 1 push_additions_fields [of w _ ?fc0 fc1] by (cases "createFiles fileActions") auto
  have f2: "defined (additions fc2) = defined (additions fc1) \<and> deletions fc2 = deletions fc1"
    using 2 push_additions_fields [of w _ fc1 fc2] by (cases "modifyFiles fileActions") auto
  show "defined (additions fc)
           = (defined (createFiles fileActions) \<or> defined (modifyFiles fileActions))"
    using f1 f2 3 by (cases "deleteFiles fileActions") auto
  show "defined (deletions fc) = defined (deleteFiles fileActions)"
    using f1 f2 3 by (cases "deleteFiles fileActions") auto
qed

lemma json_keys_fileChanges:
  "json_keys (json_of_fileChanges fc)
     = (if defined (additions fc) then [lit ''additions''] else [])
       @ (if defined (deletions fc) then [lit ''deletions''] else [])"
  by (cases "additions fc"; cases "deletions fc") (simp_all add: json_of_fileChanges_def)

lemma getRepoFiles_not_empty:
  assumes "getRepoFiles w token repo_owner repo branch_name cm del = (evs, Inr r)"
  shows "createFiles r \<noteq> Some [] \<and> modifyFiles r \<noteq> Some [] \<and> deleteFiles r \<noteq> Some []"
proof -
  from assms obtain request creates modifies infos deletes where
    "r = \<lparr>createFiles = (if length creates \<noteq> 0 then Some creates else None),
          modifyFiles = (if length modifies \<noteq> 0 then Some modifies else None),
          deleteFiles = (if length deletes \<noteq> 0 then Some deletes else None)\<rparr>"
    by (rule getRepoFiles_Inr)
  then show ?thesis by simp
qed

lemma createCommit_request:
  "createCommit_fileChanges w fileActions = Inr fc \<Longrightarrow>
   fst (createCommit w token repo_owner repo branch_name msg fileActions)
     = [RequestGraphQL token
          (createCommit_data (createCommit_input w repo_owner repo branch_name msg fc))]"
  by (simp add: createCommit_def Let_def split: sum.split option.split)

lemma json_member_fileChanges:
  "json_member (json_of_input input) (lit ''fileChanges'')
     = Some (json_of_fileChanges (fileChanges input))"
  by (simp add: json_of_input_def lit_def)

text \<open>
  C6. A classification that \<open>getRepoFiles\<close> returns has no bucket that is present
  and empty. When \<open>createCommit\<close> has built the file changes, the one request it
  sends carries, as the text of its variables, the object \<open>input\<close> whose
  \<open>fileChanges\<close> has \<open>additions\<close> exactly when \<open>createFiles\<close> or
  \<open>modifyFiles\<close> is present and \<open>deletions\<close> exactly when \<open>deleteFiles\<close> is
  present, in the object and in the properties that are serialised.
\<close>

theorem empty_buckets_omitted:
  assumes "getRepoFiles w token repo_owner repo branch_name cm del = (evs, Inr r)"
    and "createCommit_fileChanges w' fileActions = Inr fc"
  shows "createFiles r \<noteq> Some [] \<and> modifyFiles r \<noteq> Some [] \<and> deleteFiles r \<noteq> Some []
       \<and> fst (createCommit w' token' repo_owner' repo' branch_name' msg fileActions)
           = [RequestGraphQL token'
                (createCommit_data (createCommit_input w' repo_owner' repo' branch_name' msg fc))]
       \<and> variables (createCommit_data (createCommit_input w' repo_owner' repo' branch_name' msg fc))
           = Some (JSON_stringify (JObject
               [(lit ''input'',
                 json_of_input (createCommit_input w' repo_owner' repo' branch_name' msg fc))]))
       \<and> json_member (json_of_input (createCommit_input w' repo_owner' repo' branch_name' msg fc))
             (lit ''fileChanges'')
           = Some (json_of_fileChanges
               (fileChanges (createCommit_input w' repo_owner' repo' branch_name' msg fc)))
       \<and> (defined (additions (fileChanges (createCommit_input w' repo_owner' repo' branch_name' msg fc)))
            \<longleftrightarrow> defined (createFiles fileActions) \<or> defined (modifyFiles fileActions))
       \<and> (defined (deletions (fileChanges (createCommit_input w' repo_owner' repo' branch_name' msg fc)))
            \<longleftrightarrow> defined (deleteFiles fileActions))
       \<and> json_keys (json_of_fileChanges
             (fileChanges (createCommit_input w' repo_owner' repo' branch_name' msg fc)))
            = (if defined (createFiles fileActions) \<or> defined (modifyFiles fileActions)
               then [lit ''additions''] else [])
              @ (if defined (deleteFiles fileActions) then [lit ''deletions''] else [])"
proof -
  have fc: "fileChanges (createCommit_input w' repo_owner' repo' branch_name' msg fc) = fc"
    by (simp add: createCommit_input_def)
  have v: "variables (createCommit_data (createCommit_input w' repo_owner' repo' branch_name' msg fc))
           = Some (JSON_stringify (JObject
               [(lit ''input'',
                 json_of_input (createCommit_input w' repo_owner' repo' branch_name' msg fc))]))"
    by (simp add: createCommit_data_def)
  show ?thesis
    using getRepoFiles_not_empty [OF assms(1)] createCommit_fileChanges_fields [OF assms(2)]
      createCommit_request [OF assms(2), of token' repo_owner' repo' branch_name' msg]
    by (simp only: fc v json_member_fileChanges json_keys_fileChanges simp_thms)
qed

theorem empty_buckets_omitted_witness:
  "snd (getRepoFiles world_remote_has_b_c (lit ''secret'') (Some (lit ''octocat''))
          (Some (lit ''Hello-World'')) (lit ''main'') [lit ''a'', lit ''b''] [lit ''c'', lit ''d''])
     = Inr classified_a_b_c
   \<and> createCommit_fileChanges world_remote_has_b_c classified_a_b_c = Inr changes_a_b_c
   \<and> fst (createCommit world_remote_has_b_c (lit ''secret'') (Some (lit ''octocat''))
            (Some (lit ''Hello-World'')) (lit ''main'') example_message classified_a_b_c)
       = [RequestGraphQL (lit ''secret'')
            (createCommit_data (createCommit_input world_remote_has_b_c (Some (lit ''octocat''))
               (Some (lit ''Hello-World'')) (lit ''main'') example_message changes_a_b_c))]
   \<and> json_keys (json_of_fileChanges
         (fileChanges (createCommit_input world_remote_has_b_c (Some (lit ''octocat''))
               (Some (lit ''Hello-World'')) (lit ''main'') example_message changes_a_b_c)))
       = [lit ''additions'', lit ''deletions'']"
proof -
  have run: "snd (getRepoFiles world_remote_has_b_c (lit ''secret'') (Some (lit ''octocat''))
          (Some (lit ''Hello-World'')) (lit ''main'') [lit ''a'', lit ''b''] [lit ''c'', lit ''d''])
     = Inr classified_a_b_c"
    by (simp add: world_remote_has_b_c_def classified_a_b_c_def example_world_def
          getRepoFiles_simps b58_simps js_simps)
  then have 1: "getRepoFiles world_remote_has_b_c (lit ''secret'') (Some (lit ''octocat''))
          (Some (lit ''Hello-World'')) (lit ''main'') [lit ''a'', lit ''b''] [lit ''c'', lit ''d'']
     = (fst (getRepoFiles world_remote_has_b_c (lit ''secret'') (Some (lit ''octocat''))
          (Some (lit ''Hello-World'')) (lit ''main'') [lit ''a'', lit ''b''] [lit ''c'', lit ''d'']),
        Inr classified_a_b_c)"
    by (metis prod.collapse)
  have 2: "createCommit_fileChanges world_remote_has_b_c classified_a_b_c = Inr changes_a_b_c"
    by (simp add: createCommit_fileChanges_def world_remote_has_b_c_def classified_a_b_c_def
          changes_a_b_c_def example_world_def)
  have 3: "defined (createFiles classified_a_b_c)" "defined (deleteFiles classified_a_b_c)"
    by (simp_all add: classified_a_b_c_def)
  from empty_buckets_omitted [OF 1 2, of "lit ''secret''" "Some (lit ''octocat'')"
      "Some (lit ''Hello-World'')" "lit ''main''" example_message] run 2 3
  show ?thesis by simp
qed

section \<open>main\<close>

lemma checkFilesExist_missing:
  "\<not> list_all (existsSync w) files \<Longrightarrow>
   \<exists>f. find (\<lambda>file. \<not> existsSync w file) files = Some f
       \<and> checkFilesExist w files = Inl (Error (not_found_message f))"
  by (induction files) (auto simp: not_found_message_def)

lemma getInputToken_events:
  "filter is_request (fst (getInputToken w)) = []"
  "filter is_SetFailed (fst (getInputToken w)) = []"
  "filter is_success_info (fst (getInputToken w)) = []"
  by (simp_all add: getInputToken_def Let_def)

lemma classify_delete_events:
  "filter is_SetFailed (fst (classify_delete request obj keys evs ds)) = filter is_SetFailed evs
   \<and> filter is_success_info (fst (classify_delete request obj keys evs ds))
       = filter is_success_info evs"
proof (induction keys arbitrary: evs ds)
  case Nil
  then show ?case by simp
next
  case (Cons f fs)
  show ?case
  proof (cases request)
    case (NoTarget m)
    then show ?thesis by simp
  next
    case (Target t)
    then show ?thesis using Cons.IH by (simp add: Let_def lit_def)
  qed
qed

lemma getRepoFiles_events:
  "filter is_SetFailed (fst (getRepoFiles w token repo_owner repo branch_name cm del)) = []"
  "filter is_success_info (fst (getRepoFiles w token repo_owner repo branch_name cm del)) = []"
  using classify_delete_events [of _ "encode_files del" "Object_keys (encode_files del)" "[]" "[]"]
  unfolding getRepoFiles_def Let_def
  by (simp_all add: case_prod_beta split: sum.split)

lemma createCommit_events:
  "filter is_SetFailed (fst (createCommit w token repo_owner repo branch_name msg fileActions)) = []"
  "filter is_success_info (fst (createCommit w token repo_owner repo branch_name msg fileActions)) = []"
  unfolding createCommit_def Let_def
  by (simp_all split: sum.split option.split)

lemmas run_events = getInputToken_events getRepoFiles_events createCommit_events

lemma main_try_no_SetFailed: "filter is_SetFailed (fst (main_try w)) = []"
  unfolding main_try_def Let_def
  by (simp add: case_prod_beta run_events split: sum.split option.split)

lemma main_try_thrown_no_success:
  "snd (main_try w) = Inl e \<longrightarrow> filter is_success_info (fst (main_try w)) = []"
  unfolding main_try_def Let_def
  by (simp add: case_prod_beta run_events split: sum.split option.split)

text \<open>
  C9, as amended. When a path of the resolved create/modify list does not exist on the
  local disk, no run calls \<open>requestGraphQL\<close>: neither the classification query nor
  the commit mutation is started. When the other inputs (branch, delete files, commit
  message, repository, token) resolve, the run fails with the message
  \<open>create/modify file '<path>' does not exist\<close> for the first such path.
\<close>

theorem local_existence_gate:
  assumes "getInputFiles w = Inr files" and "\<not> list_all (existsSync w) files"
  shows "filter is_request (main w) = []
       \<and> (\<not> isl (getInputBranch w) \<and> \<not> isl (getInputDeleteFiles w)
            \<and> \<not> isl (getInputCommitMessage w) \<and> \<not> isl (getInputRepository w)
            \<and> \<not> isl (snd (getInputToken w))
          \<longrightarrow> (\<exists>f. find (\<lambda>file. \<not> existsSync w file) files = Some f
                  \<and> main w = fst (getInputToken w) @ [SetFailed (not_found_message f)]))"
proof -
  from checkFilesExist_missing [OF assms(2)] obtain f where
    f: "find (\<lambda>file. \<not> existsSync w file) files = Some f"
    and c: "checkFilesExist w files = Inl (Error (not_found_message f))"
    by blast
  have 1: "filter is_request (main w) = []"
    unfolding main_def main_try_def
    by (simp add: assms(1) c case_prod_beta getInputToken_events
          split: sum.split thrown.split)
  have 2: "main w = fst (getInputToken w) @ [SetFailed (not_found_message f)]"
    if "\<not> isl (getInputBranch w)" "\<not> isl (getInputDeleteFiles w)"
      "\<not> isl (getInputCommitMessage w)" "\<not> isl (getInputRepository w)"
      "\<not> isl (snd (getInputToken w))"
  proof -
    from that obtain b d m r t where
      "getInputBranch w = Inr b" "getInputDeleteFiles w = Inr d" "getInputCommitMessage w = Inr m"
      "getInputRepository w = Inr r" "snd (getInputToken w) = Inr t"
      by (metis isl_def sum.exhaust_sel)
    then show ?thesis
      unfolding main_def main_try_def by (simp add: assms(1) c case_prod_beta)
  qed
  from 1 2 f show ?thesis by blast
qed

theorem local_existence_gate_witness:
  "getInputFiles world_missing_file = Inr [lit ''a*'']
   \<and> \<not> list_all (existsSync world_missing_file) [lit ''a*'']
   \<and> filter is_request (main world_missing_file) = []
   \<and> main world_missing_file
       = [SetSecret (lit ''secret''), SetFailed (lit ''create/modify file 'a*' does not exist'')]"
proof -
  have files: "getInputFiles world_missing_file = Inr [lit ''a*'']"
    by (simp add: resolver_simps world_missing_file_def input_simps js_simps)
  have missing: "\<not> list_all (existsSync world_missing_file) [lit ''a*'']"
    by (simp add: world_missing_file_def input_simps js_simps)
  have resolved: "\<not> isl (getInputBranch world_missing_file)"
    "\<not> isl (getInputDeleteFiles world_missing_file)"
    "\<not> isl (getInputCommitMessage world_missing_file)"
    "\<not> isl (getInputRepository world_missing_file)"
    "\<not> isl (snd (getInputToken world_missing_file))"
    by (simp_all add: resolver_simps world_missing_file_def input_simps js_simps)
  have token: "fst (getInputToken world_missing_file) = [SetSecret (lit ''secret'')]"
    by (simp add: resolver_simps world_missing_file_def input_simps js_simps)
  have first: "find (\<lambda>file. \<not> existsSync world_missing_file file) [lit ''a*''] = Some (lit ''a*'')"
    by (simp add: world_missing_file_def input_simps js_simps)
  from local_existence_gate [OF files missing] resolved token first files missing
  show ?thesis by (simp add: not_found_message_def js_simps)
qed

text \<open>
  C9, as stated, fails when a later input does not resolve: with no token, the run with
  the missing file \<open>a*\<close> fails on the token, not on the file.
\<close>

theorem local_existence_gate_counterexample:
  "getInputFiles world_missing_file_no_token = Inr [lit ''a*'']
   \<and> \<not> existsSync world_missing_file_no_token (lit ''a*'')
   \<and> main world_missing_file_no_token
       = [SetFailed (lit ''no token available; must set input 'token' or 'env.GITHUB_TOKEN''
                     @ apostrophe)]"
  by (simp add: main_def main_try_def resolver_simps world_missing_file_no_token_def
        world_missing_file_def input_simps js_simps)

text \<open>
  C10. When the \<open>try\<close> block of \<open>main\<close> throws a value that is not an \<open>Error\<close>,
  the run ends with the trace of the block: \<open>setFailed\<close> is not called, and the line
  \<open>commit success\<close> is not logged.
\<close>

theorem non_Error_swallowed:
  assumes "main_try w = (evs, Inl (NonError v))"
  shows "main w = evs \<and> filter is_SetFailed (main w) = [] \<and> filter is_success_info (main w) = []"
proof -
  have m: "main w = evs" using assms by (simp add: main_def)
  moreover have "filter is_SetFailed evs = []" using main_try_no_SetFailed [of w] assms by simp
  moreover have "filter is_success_info evs = []"
    using main_try_thrown_no_success [of w "NonError v"] assms by simp
  ultimately show ?thesis by simp
qed

theorem non_Error_swallowed_witness:
  "snd (main_try world_rejecting) = Inl (NonError (lit ''closed''))
   \<and> main world_rejecting = fst (main_try world_rejecting)
   \<and> filter is_SetFailed (main world_rejecting) = []
   \<and> filter is_success_info (main world_rejecting) = []"
proof -
  have thrown: "snd (main_try world_rejecting) = Inl (NonError (lit ''closed''))"
    by (simp add: main_try_def resolver_simps world_rejecting_def input_simps js_simps
          getRepoFiles_def case_prod_beta)
  then have run: "main_try world_rejecting = (fst (main_try world_rejecting), Inl (NonError (lit ''closed'')))"
    by (metis prod.collapse)
  from non_Error_swallowed [OF run] thrown show ?thesis by blast
qed

end
